theory Spec2Isabelle
  imports Main
begin

section \<open>Python values and exceptions\<close>

text \<open>
  The service is a FastAPI application (\<^verbatim>\<open>src/main.py\<close>) with three module-level
  dictionaries (\<^verbatim>\<open>jobs\<close>, \<^verbatim>\<open>payment_instances\<close>, \<^verbatim>\<open>tx_logs\<close>) and one helper
  module (\<^verbatim>\<open>src/cardano_payments.py\<close>) that checks a payment against the Blockfrost
  indexing API. Handlers are modelled as functions from the state of these dictionaries
  to a response (or the exception that leaves the handler) and the new state. Whatever a
  handler learns from outside the process (an HTTP response, the outcome of the task
  pipeline, the answer of a payment monitor, the environment variables) is an argument.
\<close>

type_synonym job_id = string

text \<open>
  Exceptions that leave a handler. \<open>HTTPException\<close> carries status code and detail.
  \<open>BaseException\<close> stands for an exception that is not an instance of \<^verbatim>\<open>Exception\<close>
  (\<^verbatim>\<open>CancelledError\<close>, \<^verbatim>\<open>KeyboardInterrupt\<close>, \<^verbatim>\<open>SystemExit\<close>): no \<^verbatim>\<open>except Exception\<close>
  catches it.
\<close>

datatype exn =
    HTTPException nat string
  | KeyError string
  | ValueError string
  | TypeError string
  | AttributeError string
  | BaseException string

subsection \<open>The built-in \<^verbatim>\<open>int(str)\<close>\<close>

text \<open>
  \<^verbatim>\<open>int(s)\<close> on a string: surrounding whitespace is stripped, one sign is allowed, the
  rest is decimal digits, single underscores allowed between digits. Anything else raises
  \<^verbatim>\<open>ValueError\<close> (here: \<open>None\<close>). A \<open>char\<close> is a code point below 256; a string with a
  higher code point is not represented. Of these code points \<^verbatim>\<open>int\<close> strips the space,
  0x09 to 0x0D, 0x85 and 0xA0 (it does not strip 0x1C to 0x1F), and the only decimal
  digits are \<^verbatim>\<open>0\<close> to \<^verbatim>\<open>9\<close>. CPython's default limit of 4300 digits is applied.
\<close>

definition is_space :: "char \<Rightarrow> bool" where
  "is_space c = (c \<in> set [CHR '' '', CHR 0x09, CHR 0x0A, CHR 0x0B, CHR 0x0C, CHR 0x0D,
                           CHR 0x85, CHR 0xA0])"

definition strip :: "string \<Rightarrow> string" where
  "strip s = rev (dropWhile is_space (rev (dropWhile is_space s)))"

definition is_digit :: "char \<Rightarrow> bool" where
  "is_digit c = (c \<in> set ''0123456789'')"

definition digit_value :: "char \<Rightarrow> nat" where
  "digit_value c = length (takeWhile (\<lambda>d. d \<noteq> c) ''0123456789'')"

text \<open>\<open>digits after_digit acc s\<close>: \<open>after_digit\<close> says that the previous character was a digit.\<close>

fun digits :: "bool \<Rightarrow> nat \<Rightarrow> string \<Rightarrow> nat option" where
  "digits after_digit acc [] = (if after_digit then Some acc else None)"
| "digits after_digit acc (c # cs) =
     (if is_digit c then digits True (10 * acc + digit_value c) cs
      else if c = CHR ''_'' \<and> after_digit then digits False acc cs
      else None)"

definition py_int :: "string \<Rightarrow> int option" where
  "py_int s =
     (let t = strip s;
          (neg, body) = (case t of
                           c # cs \<Rightarrow> if c = CHR ''-'' then (True, cs)
                                     else if c = CHR ''+'' then (False, cs)
                                     else (False, t)
                         | [] \<Rightarrow> (False, t))
      in if length (filter is_digit body) > 4300 then None
         else (case digits False 0 body of
                 None \<Rightarrow> None
               | Some n \<Rightarrow> Some (if neg then - int n else int n)))"

subsection \<open>Results of the task pipeline\<close>

text \<open>
  \<^verbatim>\<open>execute_crew_task\<close> returns whatever \<^verbatim>\<open>crew.crew.kickoff\<close> returned: a string, or an
  object with attributes. The coordinator looks at the attributes \<^verbatim>\<open>json_dict\<close> and
  \<^verbatim>\<open>raw\<close>, at the truth value and at \<^verbatim>\<open>str(result)\<close>; an object is modelled by its list
  of attributes and its string form.
\<close>

datatype attr_value =
    AttrNone
  | AttrStr string
  | AttrDict "(string \<times> string) list"

datatype crew_value =
    StrValue string
  | ObjValue "(string \<times> attr_value) list" string

fun truthy_attr :: "attr_value \<Rightarrow> bool" where
  "truthy_attr AttrNone = False"
| "truthy_attr (AttrStr s) = (s \<noteq> [])"
| "truthy_attr (AttrDict d) = (d \<noteq> [])"

text \<open>Truth value of a result: a string is true unless empty, a plain object is true.\<close>

fun truthy :: "crew_value \<Rightarrow> bool" where
  "truthy (StrValue s) = (s \<noteq> [])"
| "truthy (ObjValue as r) = True"

text \<open>\<^verbatim>\<open>hasattr(v, name)\<close>; a \<^verbatim>\<open>str\<close> has neither \<^verbatim>\<open>raw\<close> nor \<^verbatim>\<open>json_dict\<close>.\<close>

fun hasattr :: "crew_value \<Rightarrow> string \<Rightarrow> bool" where
  "hasattr (StrValue s) name = False"
| "hasattr (ObjValue as r) name = (name \<in> set (map fst as))"

text \<open>\<^verbatim>\<open>getattr(v, name, None)\<close>.\<close>

fun getattr :: "crew_value \<Rightarrow> string \<Rightarrow> attr_value" where
  "getattr (StrValue s) name = AttrNone"
| "getattr (ObjValue as r) name = (case map_of as name of None \<Rightarrow> AttrNone | Some a \<Rightarrow> a)"

fun py_str :: "crew_value \<Rightarrow> string" where
  "py_str (StrValue s) = s"
| "py_str (ObjValue as r) = r"

text \<open>
  \<^verbatim>\<open>getattr(result, "json_dict", None) or getattr(result, "raw", None) or str(result)\<close>
  (\<^verbatim>\<open>handle_payment_status\<close>, line 183).
\<close>

definition result_dict :: "crew_value \<Rightarrow> attr_value" where
  "result_dict r =
     (if truthy_attr (getattr r ''json_dict'') then getattr r ''json_dict''
      else if truthy_attr (getattr r ''raw'') then getattr r ''raw''
      else AttrStr (py_str r))"

section \<open>Chain verifier (\<^verbatim>\<open>cardano_payments.py\<close>)\<close>

text \<open>
  The JSON body of \<^verbatim>\<open>GET /txs/{tx_hash}/utxos\<close>: a list of outputs, each with an address
  and a list of amounts; an amount has a unit and a quantity. Address and unit are only
  compared with a string: \<open>None\<close> is an absent key (\<^verbatim>\<open>dict.get\<close>) or a value that is not
  a string. An absent list is the empty list. An absent quantity is \<open>None\<close>.

  The quantity is passed to \<^verbatim>\<open>int\<close>, so its JSON value matters: a string; a number or
  boolean, given by the integer \<^verbatim>\<open>int\<close> makes of it; or any other value (\<^verbatim>\<open>null\<close>, an
  array, an object, a number \<^verbatim>\<open>int\<close> rejects), given by the exception \<^verbatim>\<open>int\<close> raises on
  it (\<^verbatim>\<open>TypeError\<close> for \<^verbatim>\<open>null\<close>).
\<close>

datatype json_quantity =
    QString string
  | QNumber int
  | QOther exn

text \<open>\<^verbatim>\<open>int(value)\<close> (line 38).\<close>

fun int_of :: "json_quantity \<Rightarrow> exn + int" where
  "int_of (QString q) = (case py_int q of None \<Rightarrow> Inl (ValueError q) | Some v \<Rightarrow> Inr v)"
| "int_of (QNumber n) = Inr n"
| "int_of (QOther ex) = Inl ex"

record amount_entry =
  unit :: "string option"
  quantity :: "json_quantity option"

record tx_output =
  address :: "string option"
  amount :: "amount_entry list"

text \<open>
  What the request gives: an exception from \<^verbatim>\<open>client.get\<close> or
  \<^verbatim>\<open>resp.raise_for_status()\<close> (with its message); an answer whose body is not JSON or
  not of the shape above, given by the exception that \<^verbatim>\<open>resp.json()\<close> or the traversal
  (lines 27-36) raises on it; or the outputs of the body.
\<close>

datatype http_outcome =
    RequestError string
  | BadBody exn
  | Response "tx_output list"

datatype details =
    ErrorDetails string
  | PaymentDetails int "(string \<times> int) list" int

record verification =
  ok :: bool
  details :: details

text \<open>The inner loop (lines 36-40), with the accumulators \<^verbatim>\<open>received\<close> and \<^verbatim>\<open>matching_outputs\<close>.\<close>

fun scan_amounts ::
  "string \<Rightarrow> amount_entry list \<Rightarrow> int \<Rightarrow> (string \<times> int) list \<Rightarrow> exn + int \<times> (string \<times> int) list"
where
  "scan_amounts addr [] received matching_outputs = Inr (received, matching_outputs)"
| "scan_amounts addr (amt # amts) received matching_outputs =
     (if unit amt = Some ''lovelace'' then
        (case int_of (case quantity amt of None \<Rightarrow> QString ''0'' | Some q \<Rightarrow> q) of
           Inl ex \<Rightarrow> Inl ex
         | Inr v \<Rightarrow> scan_amounts addr amts (received + v) (matching_outputs @ [(addr, v)]))
      else scan_amounts addr amts received matching_outputs)"

text \<open>The outer loop (lines 32-40).\<close>

fun scan_outputs ::
  "string \<Rightarrow> tx_output list \<Rightarrow> int \<Rightarrow> (string \<times> int) list \<Rightarrow> exn + int \<times> (string \<times> int) list"
where
  "scan_outputs seller_address [] received matching_outputs = Inr (received, matching_outputs)"
| "scan_outputs seller_address (out # outs) received matching_outputs =
     (if address out = Some seller_address then
        (case scan_amounts seller_address (amount out) received matching_outputs of
           Inl e \<Rightarrow> Inl e
         | Inr (received', matching_outputs') \<Rightarrow>
             scan_outputs seller_address outs received' matching_outputs')
      else scan_outputs seller_address outs received matching_outputs)"

text \<open>
  \<^verbatim>\<open>verify_transaction_pay_to_address\<close>. The transaction hash only selects the URL; the
  outcome of the request is the first argument. Only the request and
  \<^verbatim>\<open>raise_for_status\<close> are inside the \<^verbatim>\<open>try\<close>: an exception of \<^verbatim>\<open>resp.json()\<close>, of the
  traversal or of \<^verbatim>\<open>int\<close> leaves the function.
\<close>

definition verify_transaction_pay_to_address ::
  "http_outcome \<Rightarrow> string \<Rightarrow> string \<Rightarrow> int \<Rightarrow> exn + verification"
where
  "verify_transaction_pay_to_address resp tx_hash seller_address min_lovelace =
     (case resp of
        RequestError e \<Rightarrow> Inr \<lparr>ok = False, details = ErrorDetails e\<rparr>
      | BadBody ex \<Rightarrow> Inl ex
      | Response outputs \<Rightarrow>
          (case scan_outputs seller_address outputs 0 [] of
             Inl e \<Rightarrow> Inl e
           | Inr (received, matching_outputs) \<Rightarrow>
               Inr \<lparr>ok = (received \<ge> min_lovelace),
                    details = PaymentDetails received matching_outputs min_lovelace\<rparr>))"



section \<open>Job coordinator (\<^verbatim>\<open>main.py\<close>)\<close>

subsection \<open>Data\<close>

text \<open>The four literals ever stored under \<^verbatim>\<open>"status"\<close>.\<close>

datatype job_status = AwaitingPayment | Running | Completed | Failed

text \<open>\<^verbatim>\<open>tx_logs[job_id] = {"tx_hash": ..., "verified": verification.get("details")}\<close>.\<close>

datatype tx_log = TxLog string details

text \<open>The dictionary returned by \<^verbatim>\<open>mint_certificate_nft_mock\<close> (\<^verbatim>\<open>cardano_nft.py\<close>).\<close>

record nft =
  policy_id :: string
  token_name :: string
  owner :: string
  metadata_job_id :: job_id
  metadata_identifier :: string

text \<open>
  A job dictionary. \<^verbatim>\<open>payment_status\<close> is a string, or \<^verbatim>\<open>None\<close> when a payment monitor
  reports none. The keys \<^verbatim>\<open>error\<close>, \<^verbatim>\<open>tx\<close> and \<^verbatim>\<open>nft\<close> are absent until assigned and are
  only read with \<^verbatim>\<open>get\<close>: \<open>None\<close> stands for an absent key as for a stored \<^verbatim>\<open>None\<close>.
\<close>

record job =
  status :: job_status
  payment_status :: "string option"
  tx_hash :: "string option"
  input_data :: "(string \<times> string) list"
  result :: "crew_value option"
  identifier_from_purchaser :: string
  error :: "string option"
  tx :: "tx_log option"
  nft :: "nft option"

text \<open>Calls that leave the process, in the order they are made.\<close>

datatype ext_call =
    CallVerifier string string int
  | CallExecutor "(string \<times> string) list"
  | CallCompletePayment job_id string attr_value
  | CallStopMonitoring job_id
  | CallCheckPaymentStatus job_id

text \<open>
  The module-level dictionaries, the tasks made by \<^verbatim>\<open>asyncio.create_task\<close> that have not
  run yet (job id and payment id, oldest first), and the record of outside calls.
  A payment instance is opaque: only its presence under a job id matters.
\<close>

record server_state =
  jobs :: "job_id \<rightharpoonup> job"
  payment_instances :: "job_id \<rightharpoonup> unit"
  tx_logs :: "job_id \<rightharpoonup> tx_log"
  tasks :: "(job_id \<times> string) list"
  calls :: "ext_call list"

definition init_state :: server_state where
  "init_state = \<lparr>jobs = Map.empty, payment_instances = Map.empty, tx_logs = Map.empty,
                 tasks = [], calls = []\<rparr>"

text \<open>The environment variables read by the handlers (\<^verbatim>\<open>os.getenv\<close>).\<close>

record env =
  SELLER_ADDRESS :: "string option"
  PAYMENT_AMOUNT :: "string option"
  CERT_OWNER_ADDRESS :: "string option"
  MOCK_POLICY_ID :: "string option"

text \<open>\<^verbatim>\<open>os.getenv(name, default)\<close>.\<close>

definition getenv_default :: "string option \<Rightarrow> string \<Rightarrow> string" where
  "getenv_default v d = (case v of None \<Rightarrow> d | Some x \<Rightarrow> x)"

subsection \<open>\<^verbatim>\<open>start_job\<close>\<close>

datatype start_job_request = StartJobRequest string "(string \<times> string) list"

text \<open>The response: job id, seller address, required lovelace.\<close>

datatype start_job_response = PendingPayment job_id "string option" int

definition bad_request_key :: string where
  "bad_request_key = ''Bad Request: If input_data or identifier_from_purchaser is missing, invalid, or does not adhere to the schema.''"

definition bad_request_other :: string where
  "bad_request_other = ''Input_data or identifier_from_purchaser is missing, invalid, or does not adhere to the schema.''"

text \<open>
  \<^verbatim>\<open>start_job\<close>. The fresh \<^verbatim>\<open>uuid4\<close> is the argument \<open>new_id\<close>. \<^verbatim>\<open>data.input_data["text"]\<close>
  raises \<^verbatim>\<open>KeyError\<close> before the job is stored; \<^verbatim>\<open>int(os.getenv("PAYMENT_AMOUNT", ...))\<close>
  is evaluated after it, and its \<^verbatim>\<open>ValueError\<close> is caught by \<^verbatim>\<open>except Exception\<close>.
\<close>

definition start_job ::
  "env \<Rightarrow> job_id \<Rightarrow> start_job_request \<Rightarrow> server_state \<Rightarrow> (exn + start_job_response) \<times> server_state"
where
  "start_job e new_id data s =
     (case data of StartJobRequest identifier inp \<Rightarrow>
        (case map_of inp ''text'' of
           None \<Rightarrow> (Inl (HTTPException 400 bad_request_key), s)
         | Some input_text \<Rightarrow>
             (let s' = s\<lparr>jobs := (jobs s)(new_id \<mapsto>
                          \<lparr>status = AwaitingPayment, payment_status = Some ''pending'',
                           tx_hash = None, input_data = inp, result = None,
                           identifier_from_purchaser = identifier,
                           error = None, tx = None, nft = None\<rparr>)\<rparr>
              in case py_int (getenv_default (PAYMENT_AMOUNT e) ''10000000'') of
                   None \<Rightarrow> (Inl (HTTPException 400 bad_request_other), s')
                 | Some required \<Rightarrow>
                     (Inr (PendingPayment new_id (SELLER_ADDRESS e) required), s'))))"

subsection \<open>\<^verbatim>\<open>submit_tx\<close>\<close>

datatype submit_response =
    SubmitFailed verification
  | SubmitAccepted job_id string verification

text \<open>
  \<^verbatim>\<open>submit_tx\<close>. \<open>resp\<close> is what Blockfrost answers to the verifier's request. The three
  early exits (unknown job, no seller address, \<^verbatim>\<open>int\<close> failing on \<^verbatim>\<open>PAYMENT_AMOUNT\<close>) come
  before the verifier is called. There is no check of the job's status or of an earlier
  \<^verbatim>\<open>tx_hash\<close>.
\<close>

definition submit_tx ::
  "env \<Rightarrow> http_outcome \<Rightarrow> job_id \<Rightarrow> string \<Rightarrow> server_state \<Rightarrow> (exn + submit_response) \<times> server_state"
where
  "submit_tx e resp job_id txh s =
     (case jobs s job_id of
        None \<Rightarrow> (Inl (HTTPException 404 ''Job not found''), s)
      | Some j \<Rightarrow>
          (if SELLER_ADDRESS e = None \<or> SELLER_ADDRESS e = Some [] then
             (Inl (HTTPException 500 ''SELLER_ADDRESS not configured on server''), s)
           else
             (let seller_address = getenv_default (SELLER_ADDRESS e) [] in
              case py_int (getenv_default (PAYMENT_AMOUNT e) ''10000000'') of
                None \<Rightarrow> (Inl (ValueError (getenv_default (PAYMENT_AMOUNT e) ''10000000'')), s)
              | Some required \<Rightarrow>
                  (let s1 = s\<lparr>calls := calls s @ [CallVerifier txh seller_address required]\<rparr> in
                   case verify_transaction_pay_to_address resp txh seller_address required of
                     Inl ex \<Rightarrow> (Inl ex, s1)
                   | Inr v \<Rightarrow>
                       (if \<not> ok v then
                          (Inr (SubmitFailed v),
                           s1\<lparr>jobs := (jobs s1)(job_id \<mapsto>
                                 j\<lparr>payment_status := Some ''failed'', status := Failed\<rparr>)\<rparr>)
                        else
                          (Inr (SubmitAccepted job_id txh v),
                           s1\<lparr>jobs := (jobs s1)(job_id \<mapsto>
                                 j\<lparr>payment_status := Some ''completed'', tx_hash := Some txh\<rparr>),
                              tx_logs := (tx_logs s1)(job_id \<mapsto> TxLog txh (details v)),
                              tasks := tasks s1 @ [(job_id, txh)]\<rparr>))))))"

subsection \<open>\<^verbatim>\<open>handle_payment_status\<close>: the execution phase\<close>

text \<open>
  What \<^verbatim>\<open>await execute_crew_task(...)\<close> does: return a value, raise an \<^verbatim>\<open>Exception\<close>
  (with \<^verbatim>\<open>str(e)\<close>), or raise an exception that is not an \<^verbatim>\<open>Exception\<close>.
\<close>

datatype exec_outcome = Returned crew_value | Raised string | Escaped string

text \<open>
  What a call of a payment instance does (\<^verbatim>\<open>complete_payment\<close>,
  \<^verbatim>\<open>stop_status_monitoring\<close>): return, raise an \<^verbatim>\<open>Exception\<close> (caught next to the call),
  or raise an exception that is not an \<^verbatim>\<open>Exception\<close>.
\<close>

datatype call_outcome = Done | Throws | Escapes string

record monitor =
  on_complete_payment :: call_outcome
  on_stop_monitoring :: call_outcome

definition quiet :: monitor where
  "quiet = \<lparr>on_complete_payment = Done, on_stop_monitoring = Done\<rparr>"

text \<open>
  \<^verbatim>\<open>mint_certificate_nft_mock(owner or "unknown", metadata)\<close>. The owner is
  \<^verbatim>\<open>CERT_OWNER_ADDRESS\<close> when that is set and not empty; the fallback looks for a key
  \<^verbatim>\<open>address\<close> in the logged verification details, which have none.
\<close>

definition mint_certificate_nft_mock :: "env \<Rightarrow> string \<Rightarrow> job_id \<Rightarrow> string \<Rightarrow> nft" where
  "mint_certificate_nft_mock e owner_address md_job_id md_identifier =
     \<lparr>policy_id = getenv_default (MOCK_POLICY_ID e) ''mockpolicy1234567890'',
      token_name = ''Certificate-'' @ md_job_id,
      owner = owner_address,
      metadata_job_id = md_job_id,
      metadata_identifier = md_identifier\<rparr>"

definition cert_owner :: "env \<Rightarrow> string" where
  "cert_owner e =
     (case CERT_OWNER_ADDRESS e of
        None \<Rightarrow> ''unknown''
      | Some a \<Rightarrow> if a = [] then ''unknown'' else a)"

text \<open>
  Lines 216-221 and 228-233: if a payment instance is held for the job, call
  \<^verbatim>\<open>stop_status_monitoring()\<close> and delete the entry. An \<^verbatim>\<open>Exception\<close> of the call is
  swallowed; any other exception leaves the function before the entry is deleted.
\<close>

definition release_handle :: "call_outcome \<Rightarrow> job_id \<Rightarrow> server_state \<Rightarrow> exn option \<times> server_state" where
  "release_handle stop job_id s =
     (if job_id \<in> dom (payment_instances s) then
        (let s1 = s\<lparr>calls := calls s @ [CallStopMonitoring job_id]\<rparr> in
         case stop of
           Escapes msg \<Rightarrow> (Some (BaseException msg), s1)
         | _ \<Rightarrow> (None, s1\<lparr>payment_instances := (payment_instances s1)(job_id := None)\<rparr>))
      else (None, s))"

text \<open>Line 176, then the call of the task pipeline on the job's input.\<close>

definition mark_running :: "job_id \<Rightarrow> job \<Rightarrow> server_state \<Rightarrow> server_state" where
  "mark_running job_id j s =
     s\<lparr>jobs := (jobs s)(job_id \<mapsto> j\<lparr>status := Running\<rparr>),
       calls := calls s @ [CallExecutor (input_data j)]\<rparr>"

text \<open>
  Lines 180-233, from the state \<open>s1\<close> in which the job \<open>j1\<close> is running. The outer
  handler is \<^verbatim>\<open>except Exception\<close>: an exception of the pipeline that is not an
  \<^verbatim>\<open>Exception\<close> leaves the function with nothing more written. \<^verbatim>\<open>complete_payment\<close> is
  called only while a payment instance is held; its \<^verbatim>\<open>Exception\<close> is logged and dropped.
\<close>

definition finish_execution ::
  "env \<Rightarrow> exec_outcome \<Rightarrow> monitor \<Rightarrow> job_id \<Rightarrow> string \<Rightarrow> job \<Rightarrow> server_state \<Rightarrow>
     exn option \<times> server_state"
where
  "finish_execution e outcome m job_id payment_id j1 s1 =
     (case outcome of
        Escaped msg \<Rightarrow> (Some (BaseException msg), s1)
      | Raised msg \<Rightarrow>
          release_handle (on_stop_monitoring m) job_id
            (s1\<lparr>jobs := (jobs s1)(job_id \<mapsto> j1\<lparr>status := Failed, error := Some msg\<rparr>)\<rparr>)
      | Returned r \<Rightarrow>
          (let held = (job_id \<in> dom (payment_instances s1));
               s2 = (if held then
                       s1\<lparr>calls := calls s1 @
                             [CallCompletePayment job_id payment_id (result_dict r)]\<rparr>
                     else s1)
           in case (if held then on_complete_payment m else Done) of
                Escapes msg \<Rightarrow> (Some (BaseException msg), s2)
              | _ \<Rightarrow>
                  (let j2 = j1\<lparr>status := Completed, payment_status := Some ''completed'',
                               result := Some r\<rparr>;
                       j3 = (case tx_logs s2 job_id of None \<Rightarrow> j2 | Some l \<Rightarrow> j2\<lparr>tx := Some l\<rparr>);
                       j4 = j3\<lparr>nft := Some (mint_certificate_nft_mock e (cert_owner e) job_id
                                                (identifier_from_purchaser j3))\<rparr>
                   in release_handle (on_stop_monitoring m) job_id
                        (s2\<lparr>jobs := (jobs s2)(job_id \<mapsto> j4)\<rparr>))))"

text \<open>
  \<^verbatim>\<open>handle_payment_status\<close>: line 176, then the rest. For a job id that is not in
  \<^verbatim>\<open>jobs\<close> line 176 raises \<^verbatim>\<open>KeyError\<close>, and so does the handler of the \<^verbatim>\<open>except\<close>
  clause (line 224): the exception leaves the task. The body contains no suspension
  point unless a payment instance is held, so it runs as one step.
\<close>

definition handle_payment_status ::
  "env \<Rightarrow> exec_outcome \<Rightarrow> monitor \<Rightarrow> job_id \<Rightarrow> string \<Rightarrow> server_state \<Rightarrow>
     exn option \<times> server_state"
where
  "handle_payment_status e outcome m job_id payment_id s =
     (case jobs s job_id of
        None \<Rightarrow> (Some (KeyError job_id), s)
      | Some j \<Rightarrow>
          finish_execution e outcome m job_id payment_id (j\<lparr>status := Running\<rparr>)
            (mark_running job_id j s))"

subsection \<open>\<^verbatim>\<open>get_status\<close>\<close>

text \<open>
  What \<^verbatim>\<open>check_payment_status()\<close> of a held payment instance does: return a status
  (\<^verbatim>\<open>status.get("data", {}).get("status")\<close>), raise \<^verbatim>\<open>ValueError\<close>, or raise another
  \<^verbatim>\<open>Exception\<close>.
\<close>

datatype check_outcome = CheckReturned "string option" | CheckValueError | CheckException

text \<open>The view: job id, status, payment status, result (\<open>AttrNone\<close> is \<^verbatim>\<open>null\<close>), tx.\<close>

datatype status_view =
  StatusView (view_job_id: job_id) (view_status: job_status)
    (view_payment_status: "string option") (view_result: attr_value) (view_tx: "tx_log option")

text \<open>\<^verbatim>\<open>result_data.raw if result_data and hasattr(result_data, "raw") else None\<close> (line 263).\<close>

definition result_view :: "crew_value option \<Rightarrow> attr_value" where
  "result_view result_data =
     (case result_data of
        None \<Rightarrow> AttrNone
      | Some r \<Rightarrow> if truthy r \<and> hasattr r ''raw'' then getattr r ''raw'' else AttrNone)"

definition get_status ::
  "check_outcome \<Rightarrow> job_id \<Rightarrow> server_state \<Rightarrow> (exn + status_view) \<times> server_state"
where
  "get_status check job_id s =
     (case jobs s job_id of
        None \<Rightarrow> (Inl (HTTPException 404 ''Job not found''), s)
      | Some j0 \<Rightarrow>
          (let (j, s1) =
                 (if job_id \<in> dom (payment_instances s) then
                    (j0\<lparr>payment_status :=
                          (case check of
                             CheckReturned st \<Rightarrow> st
                           | CheckValueError \<Rightarrow> Some ''unknown''
                           | CheckException \<Rightarrow> Some ''error'')\<rparr>,
                     s\<lparr>calls := calls s @ [CallCheckPaymentStatus job_id]\<rparr>)
                  else (j0, s))
           in (Inr (StatusView job_id (status j) (payment_status j) (result_view (result j)) (tx j)),
               s1\<lparr>jobs := (jobs s1)(job_id \<mapsto> j)\<rparr>)))"

subsection \<open>Sequences of operations\<close>

text \<open>
  The operations of the coordinator, each with what the outside world answers.

  \<^verbatim>\<open>submit_tx\<close> suspends once, at the \<^verbatim>\<open>await\<close> of the verifier (line 286). Before it the
  handler writes nothing, and what it has read (the job is known, the configuration) still
  holds when it resumes, since jobs are never deleted. So a call that reaches the
  verifier acts on the state in which it resumes: a \<open>SubmitTx\<close> step stands at the moment
  the verifier's answer arrives, not at the moment the call was made, and two
  overlapping calls are two steps in the order of their answers.

  An execution phase runs the oldest task that \<^verbatim>\<open>submit_tx\<close> created and has not run yet.
  Nothing in \<^verbatim>\<open>main.py\<close> stores a payment instance, so none is held in a state reached from
  the empty one, and the step gives the (then unused) answers of a payment instance as
  \<open>quiet\<close>.
\<close>

datatype op =
    StartJob job_id start_job_request
  | SubmitTx http_outcome job_id string
  | ExecutionPhase exec_outcome
  | GetStatus check_outcome job_id

fun step :: "env \<Rightarrow> op \<Rightarrow> server_state \<Rightarrow> server_state" where
  "step e (StartJob new_id data) s = snd (start_job e new_id data s)"
| "step e (SubmitTx resp job_id txh) s = snd (submit_tx e resp job_id txh s)"
| "step e (ExecutionPhase outcome) s =
     (case tasks s of
        [] \<Rightarrow> s
      | (job_id, payment_id) # rest \<Rightarrow>
          snd (handle_payment_status e outcome quiet job_id payment_id (s\<lparr>tasks := rest\<rparr>)))"
| "step e (GetStatus check job_id) s = snd (get_status check job_id s)"

fun run :: "env \<Rightarrow> op list \<Rightarrow> server_state \<Rightarrow> server_state" where
  "run e [] s = s"
| "run e (x # xs) s = run e xs (step e x s)"

text \<open>
  Conditions on an operation in the state in which it acts. The code checks none of
  them. For \<open>StartJob\<close>: \<^verbatim>\<open>uuid4\<close> gives an id that is not in use. For \<open>SubmitTx\<close>, in two
  strengths: the verifier's answer arrives for a job that has no \<^verbatim>\<open>tx_hash\<close> yet (no
  proof was accepted for it before); or, more, for a job that in addition still awaits
  payment (no proof was rejected for it either). Both exclude a call after an accepted
  one and a call that overlaps an accepted one and gets its answer later.
\<close>

fun no_accepted_proof :: "op \<Rightarrow> server_state \<Rightarrow> bool" where
  "no_accepted_proof (StartJob new_id data) s = (jobs s new_id = None)"
| "no_accepted_proof (SubmitTx resp job_id txh) s =
     (case jobs s job_id of
        None \<Rightarrow> True
      | Some j \<Rightarrow> tx_hash j = None)"
| "no_accepted_proof (ExecutionPhase outcome) s = True"
| "no_accepted_proof (GetStatus check job_id) s = True"

fun accept_once_run :: "env \<Rightarrow> op list \<Rightarrow> server_state \<Rightarrow> bool" where
  "accept_once_run e [] s = True"
| "accept_once_run e (x # xs) s = (no_accepted_proof x s \<and> accept_once_run e xs (step e x s))"

fun first_proof :: "op \<Rightarrow> server_state \<Rightarrow> bool" where
  "first_proof (StartJob new_id data) s = (jobs s new_id = None)"
| "first_proof (SubmitTx resp job_id txh) s =
     (case jobs s job_id of
        None \<Rightarrow> True
      | Some j \<Rightarrow> status j = AwaitingPayment \<and> tx_hash j = None)"
| "first_proof (ExecutionPhase outcome) s = True"
| "first_proof (GetStatus check job_id) s = True"

fun single_proof_run :: "env \<Rightarrow> op list \<Rightarrow> server_state \<Rightarrow> bool" where
  "single_proof_run e [] s = True"
| "single_proof_run e (x # xs) s = (first_proof x s \<and> single_proof_run e xs (step e x s))"

text \<open>The order of the state machine: awaiting payment, then running, then a terminal status.\<close>

fun rank :: "job_status \<Rightarrow> nat" where
  "rank AwaitingPayment = 0"
| "rank Running = 1"
| "rank Completed = 2"
| "rank Failed = 2"

definition forward :: "job_status \<Rightarrow> job_status \<Rightarrow> bool" where
  "forward a b = (a = b \<or> rank a < rank b)"

text \<open>
  The invariant of runs with at most one accepted proof per job: for every job,
  \<^verbatim>\<open>result\<close> is set exactly when the job is completed, \<^verbatim>\<open>error\<close> is set only when it has
  failed, and a job without \<^verbatim>\<open>tx_hash\<close> has neither; every task that has not run belongs
  to a job that has a \<^verbatim>\<open>tx_hash\<close> and neither \<^verbatim>\<open>result\<close> nor \<^verbatim>\<open>error\<close>; no job has two such
  tasks.
\<close>

definition coherent :: "server_state \<Rightarrow> bool" where
  "coherent s =
     ((\<forall>i j. jobs s i = Some j \<longrightarrow>
          (result j \<noteq> None \<longleftrightarrow> status j = Completed) \<and>
          (error j \<noteq> None \<longrightarrow> status j = Failed) \<and>
          (tx_hash j = None \<longrightarrow> result j = None \<and> error j = None)) \<and>
      (\<forall>t \<in> set (tasks s). \<exists>j. jobs s (fst t) = Some j \<and> tx_hash j \<noteq> None \<and>
                                   result j = None \<and> error j = None) \<and>
      distinct (map fst (tasks s)))"

text \<open>
  The invariant of runs with at most one proof per job: every task that has not run
  belongs to a job that awaits payment and has a \<^verbatim>\<open>tx_hash\<close>; no job has two such tasks.
\<close>

definition pending_awaiting :: "server_state \<Rightarrow> bool" where
  "pending_awaiting s =
     ((\<forall>t \<in> set (tasks s). \<exists>j. jobs s (fst t) = Some j \<and> status j = AwaitingPayment \<and>
                                   tx_hash j \<noteq> None) \<and>
      distinct (map fst (tasks s)))"

subsection \<open>A concrete deployment and concrete answers of the outside world\<close>

definition demo_env :: env where
  "demo_env = \<lparr>SELLER_ADDRESS = Some ''addr_test1_seller'', PAYMENT_AMOUNT = None,
               CERT_OWNER_ADDRESS = None, MOCK_POLICY_ID = None\<rparr>"

definition demo_request :: start_job_request where
  "demo_request = StartJobRequest ''buyer-1'' [(''text'', ''draft a reply to Alice'')]"

text \<open>A transaction paying 15,000,000 lovelace to the seller, and one paying 3,000,000.\<close>

definition paid_outputs :: "tx_output list" where
  "paid_outputs =
     [\<lparr>address = Some ''addr_test1_seller'',
       amount = [\<lparr>unit = Some ''lovelace'', quantity = Some (QString ''15000000'')\<rparr>]\<rparr>]"

definition underpaid_outputs :: "tx_output list" where
  "underpaid_outputs =
     [\<lparr>address = Some ''addr_test1_other'',
       amount = [\<lparr>unit = Some ''lovelace'', quantity = Some (QString ''9000000'')\<rparr>]\<rparr>,
      \<lparr>address = Some ''addr_test1_seller'',
       amount = [\<lparr>unit = Some ''token'', quantity = Some (QString ''5'')\<rparr>,
                 \<lparr>unit = Some ''lovelace'', quantity = Some (QString ''3000000'')\<rparr>]\<rparr>]"


definition paid_response :: http_outcome where
  "paid_response = Response paid_outputs"

definition underpaid_response :: http_outcome where
  "underpaid_response = Response underpaid_outputs"

text \<open>The state after a job was created, paid for and executed with a plain string as result.\<close>

definition completed_state :: server_state where
  "completed_state =
     run demo_env [StartJob ''job-1'' demo_request, SubmitTx paid_response ''job-1'' ''tx-a'',
                   ExecutionPhase (Returned (StrValue ''Dear Alice''))] init_state"

text \<open>A paid job for which a payment instance is held.\<close>

definition monitored_state :: server_state where
  "monitored_state =
     (run demo_env [StartJob ''job-1'' demo_request, SubmitTx paid_response ''job-1'' ''tx-a'']
        init_state)\<lparr>payment_instances := [''job-1'' \<mapsto> ()]\<rparr>"

section \<open>The chain verifier computes the sum it is specified by\<close>

lemmas py_int_defs = py_int_def strip_def is_space_def is_digit_def digit_value_def

lemma py_int_default: "py_int ''10000000'' = Some 10000000"
  by (simp add: py_int_defs)

lemma py_int_15: "py_int ''15000000'' = Some 15000000"
  by (simp add: py_int_defs)

lemma py_int_3: "py_int ''3000000'' = Some 3000000"
  by (simp add: py_int_defs)








section \<open>Concrete evaluations\<close>

lemma verify_paid:
  "verify_transaction_pay_to_address paid_response txh ''addr_test1_seller'' 10000000 =
     Inr \<lparr>ok = True, details = PaymentDetails 15000000 [(''addr_test1_seller'', 15000000)] 10000000\<rparr>"
  by (simp add: verify_transaction_pay_to_address_def paid_response_def paid_outputs_def py_int_15)

lemma verify_underpaid:
  "verify_transaction_pay_to_address underpaid_response txh ''addr_test1_seller'' 10000000 =
     Inr \<lparr>ok = False, details = PaymentDetails 3000000 [(''addr_test1_seller'', 3000000)] 10000000\<rparr>"
  by (simp add: verify_transaction_pay_to_address_def underpaid_response_def underpaid_outputs_def py_int_3)

lemmas handler_defs = start_job_def submit_tx_def handle_payment_status_def finish_execution_def
  get_status_def init_state_def demo_env_def demo_request_def getenv_default_def mark_running_def
  release_handle_def mint_certificate_nft_mock_def cert_owner_def result_view_def quiet_def Let_def

lemmas demo_simps = handler_defs py_int_default verify_paid verify_underpaid

lemma completed_state_job:
  "jobs completed_state ''job-1'' =
     Some \<lparr>status = Completed, payment_status = Some ''completed'', tx_hash = Some ''tx-a'',
           input_data = [(''text'', ''draft a reply to Alice'')],
           result = Some (StrValue ''Dear Alice''), identifier_from_purchaser = ''buyer-1'',
           error = None,
           tx = Some (TxLog ''tx-a'' (PaymentDetails 15000000 [(''addr_test1_seller'', 15000000)] 10000000)),
           nft = Some \<lparr>policy_id = ''mockpolicy1234567890'', token_name = ''Certificate-job-1'',
                       owner = ''unknown'', metadata_job_id = ''job-1'',
                       metadata_identifier = ''buyer-1''\<rparr>\<rparr>"
  by (simp add: completed_state_def demo_simps)

lemma monitored_state_job:
  "jobs monitored_state ''job-1'' =
     Some \<lparr>status = AwaitingPayment, payment_status = Some ''completed'', tx_hash = Some ''tx-a'',
           input_data = [(''text'', ''draft a reply to Alice'')],
           result = None, identifier_from_purchaser = ''buyer-1'',
           error = None, tx = None, nft = None\<rparr>"
  by (simp add: monitored_state_def demo_simps)

section \<open>Submitting a transaction proof\<close>

text \<open>
  Claim C8. A call of \<^verbatim>\<open>submit_tx\<close> with a job id that is not in \<^verbatim>\<open>jobs\<close> ends with
  \<^verbatim>\<open>HTTPException(404, "Job not found")\<close>; the state is unchanged, and the record of
  outside calls with it: the verifier is not called.
\<close>

theorem submit_tx_unknown_job:
  "jobs s job_id = None \<Longrightarrow>
     submit_tx e resp job_id txh s = (Inl (HTTPException 404 ''Job not found''), s) \<and>
     calls (snd (submit_tx e resp job_id txh s)) = calls s"
  by (simp add: submit_tx_def)

theorem submit_tx_unknown_job_witness:
  "jobs init_state ''job-9'' = None \<and>
   submit_tx demo_env paid_response ''job-9'' ''tx-a'' init_state =
     (Inl (HTTPException 404 ''Job not found''), init_state) \<and>
   calls (snd (submit_tx demo_env paid_response ''job-9'' ''tx-a'' init_state)) = []"
proof -
  have h: "jobs init_state ''job-9'' = None" by (simp add: init_state_def)
  have c: "calls init_state = []" by (simp add: init_state_def)
  show ?thesis using h c submit_tx_unknown_job [OF h, of demo_env paid_response "''tx-a''"] by simp
qed


text \<open>
  Claim C5, amended. A call of \<^verbatim>\<open>submit_tx\<close> on a known job, with the seller address
  configured and the verifier reporting \<open>ok\<close>: the response is the acknowledgment
  \<^verbatim>\<open>accepted\<close> with the verification; the job gets \<^verbatim>\<open>payment_status = "completed"\<close> and
  the submitted \<^verbatim>\<open>tx_hash\<close>; hash and verification details are stored under the job id in
  \<^verbatim>\<open>tx_logs\<close>, not on the job; one task for the execution phase is created and has not
  run when the handler returns; the job's status is what it was (a job awaiting payment
  still awaits payment). The execution phase of that task is \<^verbatim>\<open>handle_payment_status\<close>:
  it first sets the status to running and goes on from there, so the status after it is
  running, completed or failed, and running if the pipeline's exception escapes.
\<close>

theorem submit_tx_accepted:
  assumes "jobs s job_id = Some j"
    and "SELLER_ADDRESS e = Some seller" and "seller \<noteq> []"
    and "py_int (getenv_default (PAYMENT_AMOUNT e) ''10000000'') = Some required"
    and "verify_transaction_pay_to_address resp txh seller required = Inr v"
    and "ok v"
  shows "submit_tx e resp job_id txh s =
           (Inr (SubmitAccepted job_id txh v),
            s\<lparr>calls := calls s @ [CallVerifier txh seller required],
              jobs := (jobs s)(job_id \<mapsto> j\<lparr>payment_status := Some ''completed'', tx_hash := Some txh\<rparr>),
              tx_logs := (tx_logs s)(job_id \<mapsto> TxLog txh (details v)),
              tasks := tasks s @ [(job_id, txh)]\<rparr>) \<and>
         status (j\<lparr>payment_status := Some ''completed'', tx_hash := Some txh\<rparr>) = status j \<and>
         handle_payment_status e outcome m job_id txh (snd (submit_tx e resp job_id txh s)) =
           finish_execution e outcome m job_id txh
             (j\<lparr>payment_status := Some ''completed'', tx_hash := Some txh, status := Running\<rparr>)
             (mark_running job_id (j\<lparr>payment_status := Some ''completed'', tx_hash := Some txh\<rparr>)
                (snd (submit_tx e resp job_id txh s))) \<and>
         map_option status
           (jobs (mark_running job_id (j\<lparr>payment_status := Some ''completed'', tx_hash := Some txh\<rparr>)
                   (snd (submit_tx e resp job_id txh s))) job_id) = Some Running \<and>
         map_option status
           (jobs (snd (handle_payment_status e (Escaped msg) m job_id txh
                         (snd (submit_tx e resp job_id txh s)))) job_id) = Some Running \<and>
         map_option status
           (jobs (snd (handle_payment_status e outcome m job_id txh
                         (snd (submit_tx e resp job_id txh s)))) job_id)
           \<in> {Some Running, Some Completed, Some Failed}"
proof -
  let ?j = "j\<lparr>payment_status := Some ''completed'', tx_hash := Some txh\<rparr>"
  let ?s = "s\<lparr>calls := calls s @ [CallVerifier txh seller required],
              jobs := (jobs s)(job_id \<mapsto> ?j),
              tx_logs := (tx_logs s)(job_id \<mapsto> TxLog txh (details v)),
              tasks := tasks s @ [(job_id, txh)]\<rparr>"
  have a: "submit_tx e resp job_id txh s = (Inr (SubmitAccepted job_id txh v), ?s)"
    using assms by (simp add: submit_tx_def getenv_default_def Let_def)
  have k: "jobs ?s job_id = Some ?j" by simp
  have h: "handle_payment_status e outcome m job_id txh ?s =
             finish_execution e outcome m job_id txh (?j\<lparr>status := Running\<rparr>)
               (mark_running job_id ?j ?s)"
    using k by (simp add: handle_payment_status_def)
  have r: "map_option status (jobs (mark_running job_id ?j ?s) job_id) = Some Running"
    by (simp add: mark_running_def)
  have x: "map_option status
             (jobs (snd (handle_payment_status e (Escaped msg) m job_id txh ?s)) job_id) =
           Some Running"
    by (simp add: handle_payment_status_def finish_execution_def mark_running_def)
  have y: "map_option status
             (jobs (snd (handle_payment_status e outcome m job_id txh ?s)) job_id)
           \<in> {Some Running, Some Completed, Some Failed}"
    by (cases outcome; cases "on_complete_payment m"; cases "on_stop_monitoring m")
       (simp_all add: handle_payment_status_def finish_execution_def mark_running_def
          release_handle_def Let_def)
  show ?thesis using a h r x y by simp
qed

theorem submit_tx_accepted_witness:
  "jobs (snd (start_job demo_env ''job-1'' demo_request init_state)) ''job-1'' =
     Some \<lparr>status = AwaitingPayment, payment_status = Some ''pending'', tx_hash = None,
           input_data = [(''text'', ''draft a reply to Alice'')], result = None,
           identifier_from_purchaser = ''buyer-1'', error = None, tx = None, nft = None\<rparr> \<and>
   fst (submit_tx demo_env paid_response ''job-1'' ''tx-a''
          (snd (start_job demo_env ''job-1'' demo_request init_state))) =
     Inr (SubmitAccepted ''job-1'' ''tx-a''
            \<lparr>ok = True,
             details = PaymentDetails 15000000 [(''addr_test1_seller'', 15000000)] 10000000\<rparr>) \<and>
   tasks (snd (submit_tx demo_env paid_response ''job-1'' ''tx-a''
          (snd (start_job demo_env ''job-1'' demo_request init_state)))) = [(''job-1'', ''tx-a'')] \<and>
   map_option status
     (jobs (snd (submit_tx demo_env paid_response ''job-1'' ''tx-a''
          (snd (start_job demo_env ''job-1'' demo_request init_state)))) ''job-1'') =
     Some AwaitingPayment \<and>
   map_option status
     (jobs (snd (handle_payment_status demo_env (Escaped ''cancelled'') quiet ''job-1'' ''tx-a''
        (snd (submit_tx demo_env paid_response ''job-1'' ''tx-a''
          (snd (start_job demo_env ''job-1'' demo_request init_state)))))) ''job-1'') =
     Some Running"
proof -
  let ?s = "snd (start_job demo_env ''job-1'' demo_request init_state)"
  let ?j = "\<lparr>status = AwaitingPayment, payment_status = Some ''pending'', tx_hash = None,
           input_data = [(''text'', ''draft a reply to Alice'')], result = None,
           identifier_from_purchaser = ''buyer-1'', error = None, tx = None, nft = None\<rparr>"
  have j: "jobs ?s ''job-1'' = Some ?j" by (simp add: demo_simps)
  have t: "tasks ?s = []" by (simp add: demo_simps)
  have a: "SELLER_ADDRESS demo_env = Some ''addr_test1_seller''" by (simp add: demo_env_def)
  have n: "''addr_test1_seller'' \<noteq> []" by simp
  have p: "py_int (getenv_default (PAYMENT_AMOUNT demo_env) ''10000000'') = Some 10000000"
    by (simp add: demo_env_def getenv_default_def py_int_default)
  have k: "ok \<lparr>ok = True,
             details = PaymentDetails 15000000 [(''addr_test1_seller'', 15000000)] 10000000\<rparr>"
    by simp
  note w = submit_tx_accepted [OF j a n p verify_paid [of "''tx-a''"] k,
        where outcome = "Escaped ''cancelled''" and m = quiet and msg = "''cancelled''"]
  from w have s: "submit_tx demo_env paid_response ''job-1'' ''tx-a'' ?s =
           (Inr (SubmitAccepted ''job-1'' ''tx-a''
                   \<lparr>ok = True,
                    details = PaymentDetails 15000000 [(''addr_test1_seller'', 15000000)] 10000000\<rparr>),
            ?s\<lparr>calls := calls ?s @ [CallVerifier ''tx-a'' ''addr_test1_seller'' 10000000],
              jobs := (jobs ?s)(''job-1'' \<mapsto> ?j\<lparr>payment_status := Some ''completed'', tx_hash := Some ''tx-a''\<rparr>),
              tx_logs := (tx_logs ?s)(''job-1'' \<mapsto> TxLog ''tx-a''
                 (PaymentDetails 15000000 [(''addr_test1_seller'', 15000000)] 10000000)),
              tasks := tasks ?s @ [(''job-1'', ''tx-a'')]\<rparr>)"
    by simp
  from w have r: "map_option status
     (jobs (snd (handle_payment_status demo_env (Escaped ''cancelled'') quiet ''job-1'' ''tx-a''
        (snd (submit_tx demo_env paid_response ''job-1'' ''tx-a'' ?s)))) ''job-1'') =
     Some Running"
    by blast
  show ?thesis
    using j t r by (simp add: s)
qed

theorem accepted_verification_not_on_job:
  "map_option tx
     (jobs (run demo_env [StartJob ''job-1'' demo_request,
                          SubmitTx paid_response ''job-1'' ''tx-a''] init_state) ''job-1'') =
     Some None \<and>
   tx_logs (run demo_env [StartJob ''job-1'' demo_request,
                          SubmitTx paid_response ''job-1'' ''tx-a''] init_state) ''job-1'' =
     Some (TxLog ''tx-a'' (PaymentDetails 15000000 [(''addr_test1_seller'', 15000000)] 10000000)) \<and>
   fst (get_status CheckException ''job-1''
          (run demo_env [StartJob ''job-1'' demo_request,
                         SubmitTx paid_response ''job-1'' ''tx-a''] init_state)) =
     Inr (StatusView ''job-1'' AwaitingPayment (Some ''completed'') AttrNone None)"
  by (simp add: demo_simps)

text \<open>
  Claim C4, amended. A call of \<^verbatim>\<open>submit_tx\<close> on a known job, with the seller address
  configured and the verifier reporting \<open>ok = False\<close>: the job's status and payment
  status become failed, the verification is returned in the response, and the call
  creates no task for an execution phase. (A later accepted proof for the same job
  still creates one: see the counterexample.)
\<close>

theorem submit_tx_rejected:
  assumes "jobs s job_id = Some j"
    and "SELLER_ADDRESS e = Some seller" and "seller \<noteq> []"
    and "py_int (getenv_default (PAYMENT_AMOUNT e) ''10000000'') = Some required"
    and "verify_transaction_pay_to_address resp txh seller required = Inr v"
    and "\<not> ok v"
  shows "submit_tx e resp job_id txh s =
           (Inr (SubmitFailed v),
            s\<lparr>calls := calls s @ [CallVerifier txh seller required],
              jobs := (jobs s)(job_id \<mapsto> j\<lparr>payment_status := Some ''failed'', status := Failed\<rparr>)\<rparr>) \<and>
         tasks (snd (submit_tx e resp job_id txh s)) = tasks s"
  using assms by (simp add: submit_tx_def getenv_default_def Let_def)

theorem submit_tx_rejected_witness:
  "fst (submit_tx demo_env underpaid_response ''job-1'' ''tx-a''
          (snd (start_job demo_env ''job-1'' demo_request init_state))) =
     Inr (SubmitFailed
            \<lparr>ok = False,
             details = PaymentDetails 3000000 [(''addr_test1_seller'', 3000000)] 10000000\<rparr>) \<and>
   tasks (snd (submit_tx demo_env underpaid_response ''job-1'' ''tx-a''
          (snd (start_job demo_env ''job-1'' demo_request init_state)))) = [] \<and>
   map_option status
     (jobs (snd (submit_tx demo_env underpaid_response ''job-1'' ''tx-a''
          (snd (start_job demo_env ''job-1'' demo_request init_state)))) ''job-1'') = Some Failed \<and>
   map_option payment_status
     (jobs (snd (submit_tx demo_env underpaid_response ''job-1'' ''tx-a''
          (snd (start_job demo_env ''job-1'' demo_request init_state)))) ''job-1'') =
     Some (Some ''failed'')"
proof -
  let ?s = "snd (start_job demo_env ''job-1'' demo_request init_state)"
  let ?j = "\<lparr>status = AwaitingPayment, payment_status = Some ''pending'', tx_hash = None,
           input_data = [(''text'', ''draft a reply to Alice'')], result = None,
           identifier_from_purchaser = ''buyer-1'', error = None, tx = None, nft = None\<rparr>"
  have j: "jobs ?s ''job-1'' = Some ?j" by (simp add: demo_simps)
  have t: "tasks ?s = []" by (simp add: demo_simps)
  have a: "SELLER_ADDRESS demo_env = Some ''addr_test1_seller''" by (simp add: demo_env_def)
  have n: "''addr_test1_seller'' \<noteq> []" by simp
  have p: "py_int (getenv_default (PAYMENT_AMOUNT demo_env) ''10000000'') = Some 10000000"
    by (simp add: demo_env_def getenv_default_def py_int_default)
  have k: "\<not> ok \<lparr>ok = False,
             details = PaymentDetails 3000000 [(''addr_test1_seller'', 3000000)] 10000000\<rparr>"
    by simp
  show ?thesis
    using j t submit_tx_rejected [OF j a n p verify_underpaid k] by simp
qed

theorem rejected_job_executed_later:
  "map_option status
     (jobs (run demo_env [StartJob ''job-1'' demo_request,
                          SubmitTx underpaid_response ''job-1'' ''tx-a''] init_state) ''job-1'') =
     Some Failed \<and>
   tasks (run demo_env [StartJob ''job-1'' demo_request,
                        SubmitTx underpaid_response ''job-1'' ''tx-a'',
                        SubmitTx paid_response ''job-1'' ''tx-b''] init_state) =
     [(''job-1'', ''tx-b'')] \<and>
   calls (run demo_env [StartJob ''job-1'' demo_request,
                        SubmitTx underpaid_response ''job-1'' ''tx-a'',
                        SubmitTx paid_response ''job-1'' ''tx-b'',
                        ExecutionPhase (Returned (StrValue ''Dear Alice''))] init_state) =
     [CallVerifier ''tx-a'' ''addr_test1_seller'' 10000000,
      CallVerifier ''tx-b'' ''addr_test1_seller'' 10000000,
      CallExecutor [(''text'', ''draft a reply to Alice'')]] \<and>
   map_option status
     (jobs (run demo_env [StartJob ''job-1'' demo_request,
                          SubmitTx underpaid_response ''job-1'' ''tx-a'',
                          SubmitTx paid_response ''job-1'' ''tx-b'',
                          ExecutionPhase (Returned (StrValue ''Dear Alice''))] init_state) ''job-1'') =
     Some Completed"
  by (simp add: demo_simps)

text \<open>
  Claim C2, amended. Every call of \<^verbatim>\<open>submit_tx\<close> that is accepted creates exactly one
  task for an execution phase of that job and stores the submitted hash as the job's
  \<^verbatim>\<open>tx_hash\<close>, whatever hash was stored before; a call that is not accepted creates
  none. Nothing guards against a second accepted call for the same job.
\<close>

theorem accepted_proof_triggers_one_execution:
  "tasks (snd (submit_tx e resp job_id txh s)) =
     (case fst (submit_tx e resp job_id txh s) of
        Inr (SubmitAccepted i t v) \<Rightarrow> tasks s @ [(job_id, txh)]
      | _ \<Rightarrow> tasks s) \<and>
   (\<forall>i t v. fst (submit_tx e resp job_id txh s) = Inr (SubmitAccepted i t v) \<longrightarrow>
      map_option tx_hash (jobs (snd (submit_tx e resp job_id txh s)) job_id) = Some (Some txh))"
  by (auto simp: submit_tx_def Let_def split: option.splits sum.splits)

theorem accepted_proof_triggers_one_execution_witness:
  "fst (submit_tx demo_env paid_response ''job-1'' ''tx-a''
          (snd (start_job demo_env ''job-1'' demo_request init_state))) =
     Inr (SubmitAccepted ''job-1'' ''tx-a''
            \<lparr>ok = True,
             details = PaymentDetails 15000000 [(''addr_test1_seller'', 15000000)] 10000000\<rparr>) \<and>
   tasks (snd (submit_tx demo_env paid_response ''job-1'' ''tx-a''
          (snd (start_job demo_env ''job-1'' demo_request init_state)))) = [(''job-1'', ''tx-a'')] \<and>
   map_option tx_hash
     (jobs (snd (submit_tx demo_env paid_response ''job-1'' ''tx-a''
          (snd (start_job demo_env ''job-1'' demo_request init_state)))) ''job-1'') =
     Some (Some ''tx-a'')"
proof -
  let ?s = "snd (start_job demo_env ''job-1'' demo_request init_state)"
  have f: "fst (submit_tx demo_env paid_response ''job-1'' ''tx-a'' ?s) =
     Inr (SubmitAccepted ''job-1'' ''tx-a''
            \<lparr>ok = True,
             details = PaymentDetails 15000000 [(''addr_test1_seller'', 15000000)] 10000000\<rparr>)"
    by (simp add: demo_simps)
  have t: "tasks ?s = []" by (simp add: demo_simps)
  show ?thesis
    using f t accepted_proof_triggers_one_execution [of demo_env paid_response "''job-1''" "''tx-a''" ?s]
    by simp
qed

theorem second_proof_triggers_second_execution:
  "tasks (run demo_env [StartJob ''job-1'' demo_request,
                        SubmitTx paid_response ''job-1'' ''tx-a'',
                        SubmitTx paid_response ''job-1'' ''tx-b''] init_state) =
     [(''job-1'', ''tx-a''), (''job-1'', ''tx-b'')] \<and>
   map_option tx_hash
     (jobs (run demo_env [StartJob ''job-1'' demo_request,
                          SubmitTx paid_response ''job-1'' ''tx-a''] init_state) ''job-1'') =
     Some (Some ''tx-a'') \<and>
   map_option tx_hash
     (jobs (run demo_env [StartJob ''job-1'' demo_request,
                          SubmitTx paid_response ''job-1'' ''tx-a'',
                          SubmitTx paid_response ''job-1'' ''tx-b''] init_state) ''job-1'') =
     Some (Some ''tx-b'') \<and>
   calls (run demo_env [StartJob ''job-1'' demo_request,
                        SubmitTx paid_response ''job-1'' ''tx-a'',
                        SubmitTx paid_response ''job-1'' ''tx-b'',
                        ExecutionPhase (Returned (StrValue ''Dear Alice'')),
                        ExecutionPhase (Returned (StrValue ''Dear Alice, again''))] init_state) =
     [CallVerifier ''tx-a'' ''addr_test1_seller'' 10000000,
      CallVerifier ''tx-b'' ''addr_test1_seller'' 10000000,
      CallExecutor [(''text'', ''draft a reply to Alice'')],
      CallExecutor [(''text'', ''draft a reply to Alice'')]]"
  by (simp add: demo_simps)

section \<open>Creating a job\<close>

text \<open>
  Claim C7, amended. A call of \<^verbatim>\<open>start_job\<close> whose \<^verbatim>\<open>input_data\<close> has no key \<^verbatim>\<open>text\<close>
  ends with \<^verbatim>\<open>HTTPException(400, ...)\<close> and registers no job. (An empty \<^verbatim>\<open>text\<close> is
  accepted: see the counterexample.)
\<close>

theorem start_job_missing_text:
  "map_of inp ''text'' = None \<Longrightarrow>
     start_job e new_id (StartJobRequest identifier inp) s =
       (Inl (HTTPException 400 bad_request_key), s)"
  by (simp add: start_job_def)

theorem start_job_missing_text_witness:
  "map_of [(''task_type'', ''research'')] ''text'' = None \<and>
   start_job demo_env ''job-1'' (StartJobRequest ''buyer-1'' [(''task_type'', ''research'')]) init_state =
     (Inl (HTTPException 400 bad_request_key), init_state)"
proof -
  have h: "map_of [(''task_type'', ''research'')] ''text'' = None" by simp
  show ?thesis
    using h start_job_missing_text [OF h, of demo_env "''job-1''" "''buyer-1''" init_state] by simp
qed

theorem start_job_empty_text_registered:
  "fst (start_job demo_env ''job-1'' (StartJobRequest ''buyer-1'' [(''text'', '''')]) init_state) =
     Inr (PendingPayment ''job-1'' (Some ''addr_test1_seller'') 10000000) \<and>
   map_option status
     (jobs (snd (start_job demo_env ''job-1'' (StartJobRequest ''buyer-1'' [(''text'', '''')]) init_state))
        ''job-1'') = Some AwaitingPayment"
  by (simp add: demo_simps)


section \<open>The execution phase and the status view\<close>

text \<open>
  Claim C9, amended. An execution phase for a known job in which the pipeline returns
  or raises an \<^verbatim>\<open>Exception\<close>, and the calls of a held payment instance raise nothing but
  \<^verbatim>\<open>Exception\<close>s, lets no exception escape. If the pipeline raises, the job ends with status
  failed and the message under \<^verbatim>\<open>error\<close>. Whether it returns or raises, no payment
  instance is held for the job afterwards, and if one was held the last outside call is
  \<^verbatim>\<open>stop_status_monitoring\<close>. (An exception that is not an \<^verbatim>\<open>Exception\<close> is not caught:
  see the counterexample.)
\<close>

theorem execution_phase_cleanup:
  assumes "jobs s job_id = Some j"
    and "s' = snd (handle_payment_status e outcome m job_id payment_id s)"
    and "\<forall>msg. outcome \<noteq> Escaped msg"
    and "\<forall>msg. on_complete_payment m \<noteq> Escapes msg"
    and "\<forall>msg. on_stop_monitoring m \<noteq> Escapes msg"
  shows "fst (handle_payment_status e outcome m job_id payment_id s) = None \<and>
         payment_instances s' job_id = None \<and>
         (payment_instances s job_id \<noteq> None \<longrightarrow> last (calls s') = CallStopMonitoring job_id) \<and>
         (\<forall>msg. outcome = Raised msg \<longrightarrow>
            (\<exists>j'. jobs s' job_id = Some j' \<and> status j' = Failed \<and> error j' = Some msg))"
  using assms
  by (cases outcome; cases "on_complete_payment m"; cases "on_stop_monitoring m")
     (auto simp: handle_payment_status_def finish_execution_def release_handle_def
           mark_running_def Let_def split: option.splits)

theorem execution_phase_cleanup_witness:
  "payment_instances monitored_state ''job-1'' = Some () \<and>
   fst (handle_payment_status demo_env (Raised ''pipeline down'') quiet ''job-1'' ''tx-a''
          monitored_state) = None \<and>
   payment_instances
     (snd (handle_payment_status demo_env (Raised ''pipeline down'') quiet ''job-1'' ''tx-a''
             monitored_state))
     ''job-1'' = None \<and>
   last (calls
     (snd (handle_payment_status demo_env (Raised ''pipeline down'') quiet ''job-1'' ''tx-a''
             monitored_state)))
     = CallStopMonitoring ''job-1'' \<and>
   (\<exists>j'. jobs
       (snd (handle_payment_status demo_env (Raised ''pipeline down'') quiet ''job-1'' ''tx-a''
               monitored_state))
       ''job-1'' = Some j' \<and> status j' = Failed \<and> error j' = Some ''pipeline down'')"
proof -
  have h: "payment_instances monitored_state ''job-1'' = Some ()"
    by (simp add: monitored_state_def)
  have o: "\<forall>msg. Raised ''pipeline down'' \<noteq> Escaped msg" by simp
  have c: "\<forall>msg. on_complete_payment quiet \<noteq> Escapes msg" by (simp add: quiet_def)
  have t: "\<forall>msg. on_stop_monitoring quiet \<noteq> Escapes msg" by (simp add: quiet_def)
  show ?thesis
    using h execution_phase_cleanup [OF monitored_state_job refl o c t, of demo_env "''tx-a''"]
    by simp
qed

theorem escaping_exception_skips_cleanup:
  "fst (handle_payment_status demo_env (Escaped ''CancelledError'') quiet ''job-1'' ''tx-a''
          monitored_state) = Some (BaseException ''CancelledError'') \<and>
   map_option status
     (jobs (snd (handle_payment_status demo_env (Escaped ''CancelledError'') quiet ''job-1'' ''tx-a''
                   monitored_state)) ''job-1'') = Some Running \<and>
   map_option error
     (jobs (snd (handle_payment_status demo_env (Escaped ''CancelledError'') quiet ''job-1'' ''tx-a''
                   monitored_state)) ''job-1'') = Some None \<and>
   payment_instances
     (snd (handle_payment_status demo_env (Escaped ''CancelledError'') quiet ''job-1'' ''tx-a''
             monitored_state)) ''job-1'' = Some () \<and>
   map_option status
     (jobs (run demo_env [StartJob ''job-1'' demo_request,
                          SubmitTx paid_response ''job-1'' ''tx-a'',
                          ExecutionPhase (Escaped ''CancelledError'')] init_state) ''job-1'') =
     Some Running"
  by (simp add: monitored_state_def demo_simps)

text \<open>
  Claim C10. \<^verbatim>\<open>get_status\<close> on a known job returns a view with the job's status; the
  view's result is other than \<^verbatim>\<open>null\<close> only if the stored result has an attribute \<^verbatim>\<open>raw\<close>;
  in particular a stored plain string is reported as \<^verbatim>\<open>null\<close>, also for a completed job.
\<close>

theorem get_status_result_null:
  assumes "jobs s job_id = Some j"
  shows "\<exists>v. fst (get_status check job_id s) = Inr v \<and> view_status v = status j \<and>
           (view_result v \<noteq> AttrNone \<longrightarrow> (\<exists>r. result j = Some r \<and> hasattr r ''raw'')) \<and>
           ((\<exists>txt. result j = Some (StrValue txt)) \<longrightarrow> view_result v = AttrNone)"
  using assms by (auto simp: get_status_def result_view_def Let_def split: option.splits)

theorem get_status_result_null_witness:
  "map_option status (jobs completed_state ''job-1'') = Some Completed \<and>
   map_option result (jobs completed_state ''job-1'') = Some (Some (StrValue ''Dear Alice'')) \<and>
   (\<exists>v. fst (get_status CheckException ''job-1'' completed_state) = Inr v \<and>
        view_status v = Completed \<and> view_result v = AttrNone)"
  using get_status_result_null [OF completed_state_job, of CheckException] completed_state_job
  by auto

section \<open>Runs with at most one accepted proof per job\<close>

lemma coherent_init: "coherent init_state"
  by (simp add: coherent_def init_state_def)

lemma coherent_cong:
  "jobs s' = jobs s \<Longrightarrow> tasks s' = tasks s \<Longrightarrow> coherent s' = coherent s"
  by (simp add: coherent_def)

lemma coherent_job:
  "coherent s \<Longrightarrow> jobs s i = Some j \<Longrightarrow>
     (result j \<noteq> None \<longleftrightarrow> status j = Completed) \<and>
     (error j \<noteq> None \<longrightarrow> status j = Failed) \<and>
     (tx_hash j = None \<longrightarrow> result j = None \<and> error j = None)"
  unfolding coherent_def by blast

lemma coherent_unpaid:
  "coherent s \<Longrightarrow> jobs s i = Some j \<Longrightarrow> tx_hash j = None \<Longrightarrow>
     result j = None \<and> error j = None \<and> status j \<noteq> Completed"
  using coherent_job [of s i j] by auto

lemma coherent_no_task:
  assumes "coherent s" and "jobs s i = None \<or> (\<exists>j. jobs s i = Some j \<and> tx_hash j = None)"
  shows "i \<notin> fst ` set (tasks s)"
  using assms unfolding coherent_def by force

lemma coherent_new_job:
  assumes c: "coherent s" and n: "jobs s i = None"
    and j: "result j = None" "error j = None" "status j = AwaitingPayment"
    and s': "jobs s' = (jobs s)(i \<mapsto> j)" "tasks s' = tasks s"
  shows "coherent s'"
proof -
  have nt: "i \<notin> fst ` set (tasks s)" using coherent_no_task [OF c] n by blast
  show ?thesis
    using c j s' nt unfolding coherent_def by (auto simp: image_iff)
qed

lemma coherent_rejected:
  assumes c: "coherent s" and k: "jobs s i = Some j" "tx_hash j = None"
    and s': "jobs s' = (jobs s)(i \<mapsto> j\<lparr>payment_status := ps, status := Failed\<rparr>)" "tasks s' = tasks s"
  shows "coherent s'"
proof -
  have nt: "i \<notin> fst ` set (tasks s)" using coherent_no_task [OF c] k by blast
  have r: "result j = None" "error j = None" using coherent_unpaid [OF c k] by auto
  show ?thesis
    using c k r s' nt unfolding coherent_def by (auto simp: image_iff)
qed

lemma coherent_accepted:
  assumes c: "coherent s" and k: "jobs s i = Some j" "tx_hash j = None"
    and s': "jobs s' = (jobs s)(i \<mapsto> j\<lparr>payment_status := ps, tx_hash := Some t\<rparr>)"
            "tasks s' = tasks s @ [(i, t)]"
  shows "coherent s'"
proof -
  have nt: "i \<notin> fst ` set (tasks s)" using coherent_no_task [OF c] k by blast
  have r: "result j = None" "error j = None" "status j \<noteq> Completed"
    using coherent_unpaid [OF c k] by auto
  show ?thesis
    using c k r s' nt unfolding coherent_def by (auto simp: image_iff)
qed

lemma coherent_payment_status:
  assumes c: "coherent s" and k: "jobs s i = Some j"
    and s': "jobs s' = (jobs s)(i \<mapsto> j\<lparr>payment_status := ps\<rparr>)" "tasks s' = tasks s"
  shows "coherent s'"
  using c k s' unfolding coherent_def by (auto simp: image_iff)

lemma coherent_executed:
  assumes c: "coherent s" and t: "tasks s = (i, p) # rest"
    and j': "result j' \<noteq> None \<longleftrightarrow> status j' = Completed"
            "error j' \<noteq> None \<longrightarrow> status j' = Failed" "tx_hash j' \<noteq> None"
    and s': "jobs s' = (jobs s)(i \<mapsto> j')" "tasks s' = rest"
  shows "coherent s'"
proof -
  have d: "i \<notin> fst ` set rest" "distinct (map fst rest)"
    using c t unfolding coherent_def by auto
  have r: "\<forall>t \<in> set rest. \<exists>j. jobs s (fst t) = Some j \<and> tx_hash j \<noteq> None \<and>
             result j = None \<and> error j = None"
    using c t unfolding coherent_def by auto
  have o: "\<forall>i j. jobs s i = Some j \<longrightarrow>
          (result j \<noteq> None \<longleftrightarrow> status j = Completed) \<and>
          (error j \<noteq> None \<longrightarrow> status j = Failed) \<and>
          (tx_hash j = None \<longrightarrow> result j = None \<and> error j = None)"
    using c unfolding coherent_def by blast
  show ?thesis
    unfolding coherent_def
  proof (intro conjI allI impI ballI)
    fix i' j'' assume a: "jobs s' i' = Some j''"
    show "(result j'' \<noteq> None) = (status j'' = Completed)"
      using a s' j' o by (cases "i' = i") auto
    show "error j'' \<noteq> None \<Longrightarrow> status j'' = Failed"
      using a s' j' o by (cases "i' = i") auto
    show "tx_hash j'' = None \<Longrightarrow> result j'' = None"
      using a s' j' o by (cases "i' = i") auto
    show "tx_hash j'' = None \<Longrightarrow> error j'' = None"
      using a s' j' o by (cases "i' = i") auto
  next
    fix t assume a: "t \<in> set (tasks s')"
    then have "fst t \<noteq> i" using d s' by auto
    then show "\<exists>j. jobs s' (fst t) = Some j \<and> tx_hash j \<noteq> None \<and>
                 result j = None \<and> error j = None"
      using a r s' by auto
  next
    show "distinct (map fst (tasks s'))" using d s' by simp
  qed
qed

lemma release_handle_jobs [simp]: "jobs (snd (release_handle st i s)) = jobs s"
  by (cases st) (simp_all add: release_handle_def Let_def)

lemma release_handle_tasks [simp]: "tasks (snd (release_handle st i s)) = tasks s"
  by (cases st) (simp_all add: release_handle_def Let_def)

lemma handle_payment_status_effect:
  assumes "jobs s i = Some j"
  shows "\<exists>j'. jobs (snd (handle_payment_status e outc m i p s)) = (jobs s)(i \<mapsto> j') \<and>
              tasks (snd (handle_payment_status e outc m i p s)) = tasks s \<and>
              tx_hash j' = tx_hash j \<and>
              ((status j' = Completed \<and> result j' \<noteq> None \<and> error j' = error j) \<or>
               (status j' = Failed \<and> error j' \<noteq> None \<and> result j' = result j) \<or>
               (status j' = Running \<and> error j' = error j \<and> result j' = result j))"
proof (cases outc)
  case (Returned r)
  show ?thesis
  proof (cases "\<exists>msg. i \<in> dom (payment_instances s) \<and> on_complete_payment m = Escapes msg")
    case True
    with assms Returned show ?thesis
      by (auto simp: handle_payment_status_def finish_execution_def mark_running_def Let_def)
  next
    case False
    with assms Returned show ?thesis
      by (cases "on_complete_payment m")
         (auto simp: handle_payment_status_def finish_execution_def mark_running_def Let_def
               split: option.splits)
  qed
next
  case (Raised msg)
  with assms show ?thesis
    by (intro exI [of _ "j\<lparr>status := Failed, error := Some msg\<rparr>"])
       (simp add: handle_payment_status_def finish_execution_def mark_running_def)
next
  case (Escaped msg)
  with assms show ?thesis
    by (intro exI [of _ "j\<lparr>status := Running\<rparr>"])
       (simp add: handle_payment_status_def finish_execution_def mark_running_def)
qed

lemma coherent_start_job:
  assumes c: "coherent s" and n: "jobs s new_id = None"
  shows "coherent (snd (start_job e new_id data s))"
proof (cases data)
  case (StartJobRequest ident inp)
  show ?thesis
  proof (cases "map_of inp ''text''")
    case None
    with StartJobRequest c show ?thesis by (simp add: start_job_def)
  next
    case (Some input_text)
    let ?j = "\<lparr>status = AwaitingPayment, payment_status = Some ''pending'',
               tx_hash = None, input_data = inp, result = None,
               identifier_from_purchaser = ident,
               error = None, tx = None, nft = None\<rparr>"
    have "jobs (snd (start_job e new_id data s)) = (jobs s)(new_id \<mapsto> ?j)"
         "tasks (snd (start_job e new_id data s)) = tasks s"
      using StartJobRequest Some by (simp_all add: start_job_def Let_def split: option.splits)
    then show ?thesis
      using coherent_new_job [OF c n, of ?j] by simp
  qed
qed

lemma submit_tx_effect:
  assumes "jobs s i = Some j"
  shows "(jobs (snd (submit_tx e resp i t s)) = jobs s \<and>
          tasks (snd (submit_tx e resp i t s)) = tasks s) \<or>
         (jobs (snd (submit_tx e resp i t s)) =
            (jobs s)(i \<mapsto> j\<lparr>payment_status := Some ''failed'', status := Failed\<rparr>) \<and>
          tasks (snd (submit_tx e resp i t s)) = tasks s) \<or>
         (jobs (snd (submit_tx e resp i t s)) =
            (jobs s)(i \<mapsto> j\<lparr>payment_status := Some ''completed'', tx_hash := Some t\<rparr>) \<and>
          tasks (snd (submit_tx e resp i t s)) = tasks s @ [(i, t)])"
  using assms by (auto simp: submit_tx_def Let_def split: option.splits sum.splits)

lemma coherent_submit_tx:
  assumes c: "coherent s" and a: "no_accepted_proof (SubmitTx resp i t) s"
  shows "coherent (snd (submit_tx e resp i t s))"
proof (cases "jobs s i")
  case None
  with c show ?thesis by (simp add: submit_tx_def)
next
  case (Some j)
  with a have k: "tx_hash j = None" by simp
  from submit_tx_effect [OF Some, of e resp t] show ?thesis
  proof (elim disjE conjE)
    assume "jobs (snd (submit_tx e resp i t s)) = jobs s"
           "tasks (snd (submit_tx e resp i t s)) = tasks s"
    then show ?thesis using c coherent_cong by blast
  next
    assume "jobs (snd (submit_tx e resp i t s)) =
              (jobs s)(i \<mapsto> j\<lparr>payment_status := Some ''failed'', status := Failed\<rparr>)"
           "tasks (snd (submit_tx e resp i t s)) = tasks s"
    then show ?thesis using coherent_rejected [OF c Some k] by blast
  next
    assume "jobs (snd (submit_tx e resp i t s)) =
              (jobs s)(i \<mapsto> j\<lparr>payment_status := Some ''completed'', tx_hash := Some t\<rparr>)"
           "tasks (snd (submit_tx e resp i t s)) = tasks s @ [(i, t)]"
    then show ?thesis using coherent_accepted [OF c Some k] by blast
  qed
qed

lemma get_status_effect:
  assumes "jobs s i = Some j"
  shows "\<exists>ps. jobs (snd (get_status check i s)) = (jobs s)(i \<mapsto> j\<lparr>payment_status := ps\<rparr>) \<and>
              tasks (snd (get_status check i s)) = tasks s"
proof (cases "i \<in> dom (payment_instances s)")
  case True
  with assms show ?thesis by (auto simp: get_status_def Let_def)
next
  case False
  with assms have "jobs (snd (get_status check i s)) = (jobs s)(i \<mapsto> j\<lparr>payment_status := payment_status j\<rparr>)"
       "tasks (snd (get_status check i s)) = tasks s"
    by (simp_all add: get_status_def Let_def)
  then show ?thesis by blast
qed

lemma coherent_get_status:
  assumes c: "coherent s"
  shows "coherent (snd (get_status check i s))"
proof (cases "jobs s i")
  case None
  with c show ?thesis by (simp add: get_status_def)
next
  case (Some j)
  from get_status_effect [OF Some, of check] obtain ps where
    "jobs (snd (get_status check i s)) = (jobs s)(i \<mapsto> j\<lparr>payment_status := ps\<rparr>)"
    "tasks (snd (get_status check i s)) = tasks s" by blast
  then show ?thesis using coherent_payment_status [OF c Some] by blast
qed

lemma coherent_execution_phase:
  assumes c: "coherent s"
  shows "coherent (step e (ExecutionPhase outc) s)"
proof (cases "tasks s")
  case Nil
  with c show ?thesis by simp
next
  case (Cons t rest)
  obtain i p where t: "t = (i, p)" by (cases t)
  from c Cons t obtain j where
    j: "jobs s i = Some j" "tx_hash j \<noteq> None" "result j = None" "error j = None"
    unfolding coherent_def by force
  let ?s = "s\<lparr>tasks := rest\<rparr>"
  have "jobs ?s i = Some j" using j by simp
  from handle_payment_status_effect [OF this, of e outc quiet p] obtain j' where
    e: "jobs (snd (handle_payment_status e outc quiet i p ?s)) = (jobs s)(i \<mapsto> j')"
       "tasks (snd (handle_payment_status e outc quiet i p ?s)) = rest"
       "tx_hash j' = tx_hash j"
       "(status j' = Completed \<and> result j' \<noteq> None \<and> error j' = error j) \<or>
        (status j' = Failed \<and> error j' \<noteq> None \<and> result j' = result j) \<or>
        (status j' = Running \<and> error j' = error j \<and> result j' = result j)"
    by auto
  have "coherent (snd (handle_payment_status e outc quiet i p ?s))"
  proof (rule coherent_executed [OF c _ _ _ _ e(1) e(2)])
    show "tasks s = (i, p) # rest" using Cons t by simp
    show "(result j' \<noteq> None) = (status j' = Completed)" using e(4) j by auto
    show "error j' \<noteq> None \<longrightarrow> status j' = Failed" using e(4) j by auto
    show "tx_hash j' \<noteq> None" using e(3) j by simp
  qed
  then show ?thesis using Cons t by simp
qed

lemma coherent_step:
  "coherent s \<Longrightarrow> no_accepted_proof x s \<Longrightarrow> coherent (step e x s)"
  by (cases x)
     (simp_all add: coherent_start_job coherent_submit_tx coherent_get_status
        coherent_execution_phase del: step.simps(3))

lemma coherent_run:
  "coherent s \<Longrightarrow> accept_once_run e xs s \<Longrightarrow> coherent (run e xs s)"
  by (induction xs arbitrary: s) (simp_all add: coherent_step)

text \<open>
  Claim C1, amended. In every run from the empty state in which ids are fresh and no
  call of \<^verbatim>\<open>submit_tx\<close> gets the verifier's answer for a job that already has a
  \<^verbatim>\<open>tx_hash\<close>, after every operation and for every job: \<^verbatim>\<open>result\<close> is set if and only if
  the status is completed, and \<^verbatim>\<open>error\<close> is set only if the status is failed. (A job
  that failed verification is failed with no \<^verbatim>\<open>error\<close>: see the counterexample.)
\<close>

theorem result_and_error_fields:
  assumes "accept_once_run e xs init_state"
    and "jobs (run e xs init_state) job_id = Some j"
  shows "(result j \<noteq> None \<longleftrightarrow> status j = Completed) \<and>
         (error j \<noteq> None \<longrightarrow> status j = Failed)"
  using coherent_job [OF coherent_run [OF coherent_init assms(1)] assms(2)] by simp

theorem result_and_error_fields_witness:
  "accept_once_run demo_env
     [StartJob ''job-1'' demo_request, SubmitTx underpaid_response ''job-1'' ''tx-0'',
      SubmitTx paid_response ''job-1'' ''tx-a'',
      ExecutionPhase (Returned (StrValue ''Dear Alice''))] init_state \<and>
   map_option status
     (jobs (run demo_env
        [StartJob ''job-1'' demo_request, SubmitTx underpaid_response ''job-1'' ''tx-0'',
         SubmitTx paid_response ''job-1'' ''tx-a'',
         ExecutionPhase (Returned (StrValue ''Dear Alice''))] init_state) ''job-1'') =
     Some Completed \<and>
   map_option result
     (jobs (run demo_env
        [StartJob ''job-1'' demo_request, SubmitTx underpaid_response ''job-1'' ''tx-0'',
         SubmitTx paid_response ''job-1'' ''tx-a'',
         ExecutionPhase (Returned (StrValue ''Dear Alice''))] init_state) ''job-1'') =
     Some (Some (StrValue ''Dear Alice'')) \<and>
   map_option error
     (jobs (run demo_env
        [StartJob ''job-1'' demo_request, SubmitTx underpaid_response ''job-1'' ''tx-0'',
         SubmitTx paid_response ''job-1'' ''tx-a'',
         ExecutionPhase (Returned (StrValue ''Dear Alice''))] init_state) ''job-1'') =
     Some None"
proof -
  let ?xs = "[StartJob ''job-1'' demo_request, SubmitTx underpaid_response ''job-1'' ''tx-0'',
      SubmitTx paid_response ''job-1'' ''tx-a'',
      ExecutionPhase (Returned (StrValue ''Dear Alice''))]"
  have h: "accept_once_run demo_env ?xs init_state"
    by (simp add: demo_simps)
  have j: "jobs (run demo_env ?xs init_state) ''job-1'' =
     Some \<lparr>status = Completed, payment_status = Some ''completed'', tx_hash = Some ''tx-a'',
           input_data = [(''text'', ''draft a reply to Alice'')],
           result = Some (StrValue ''Dear Alice''), identifier_from_purchaser = ''buyer-1'',
           error = None,
           tx = Some (TxLog ''tx-a'' (PaymentDetails 15000000 [(''addr_test1_seller'', 15000000)] 10000000)),
           nft = Some \<lparr>policy_id = ''mockpolicy1234567890'', token_name = ''Certificate-job-1'',
                       owner = ''unknown'', metadata_job_id = ''job-1'',
                       metadata_identifier = ''buyer-1''\<rparr>\<rparr>"
    by (simp add: demo_simps)
  show ?thesis
    using h j result_and_error_fields [OF h j] by simp
qed

theorem failed_without_error_and_failed_with_result:
  "accept_once_run demo_env
     [StartJob ''job-1'' demo_request, SubmitTx underpaid_response ''job-1'' ''tx-a''] init_state \<and>
   map_option status
     (jobs (run demo_env [StartJob ''job-1'' demo_request,
                          SubmitTx underpaid_response ''job-1'' ''tx-a''] init_state) ''job-1'') =
     Some Failed \<and>
   map_option error
     (jobs (run demo_env [StartJob ''job-1'' demo_request,
                          SubmitTx underpaid_response ''job-1'' ''tx-a''] init_state) ''job-1'') =
     Some None \<and>
   map_option status
     (jobs (run demo_env [SubmitTx underpaid_response ''job-1'' ''tx-b''] completed_state) ''job-1'') =
     Some Failed \<and>
   map_option result
     (jobs (run demo_env [SubmitTx underpaid_response ''job-1'' ''tx-b''] completed_state) ''job-1'') =
     Some (Some (StrValue ''Dear Alice''))"
  by (simp add: completed_state_def demo_simps)

section \<open>The status moves forward\<close>

lemma forward_refl: "forward a a"
  by (simp add: forward_def)

lemma forward_trans: "forward a b \<Longrightarrow> forward b c \<Longrightarrow> forward a c"
  by (auto simp: forward_def)

lemma forward_awaiting: "forward AwaitingPayment b"
  by (cases b) (simp_all add: forward_def)

lemma pending_init: "pending_awaiting init_state"
  by (simp add: pending_awaiting_def init_state_def)

lemma pending_no_task:
  assumes "pending_awaiting s"
    and "jobs s i = None \<or> (\<exists>j. jobs s i = Some j \<and> tx_hash j = None)"
  shows "i \<notin> fst ` set (tasks s)"
  using assms unfolding pending_awaiting_def by force

lemma pending_other:
  assumes "pending_awaiting s" and "i \<notin> fst ` set (tasks s)"
    and "jobs s' = (jobs s)(i \<mapsto> j')" "tasks s' = tasks s"
  shows "pending_awaiting s'"
  using assms unfolding pending_awaiting_def by (auto simp: image_iff)

lemma pending_accepted:
  assumes "pending_awaiting s" and "i \<notin> fst ` set (tasks s)"
    and "status j' = AwaitingPayment" "tx_hash j' \<noteq> None"
    and "jobs s' = (jobs s)(i \<mapsto> j')" "tasks s' = tasks s @ [(i, t)]"
  shows "pending_awaiting s'"
  using assms unfolding pending_awaiting_def by (auto simp: image_iff)

lemma pending_executed:
  assumes "pending_awaiting s" and "tasks s = (i, p) # rest"
    and "jobs s' = (jobs s)(i \<mapsto> j')" "tasks s' = rest"
  shows "pending_awaiting s'"
  using assms unfolding pending_awaiting_def by (auto simp: image_iff)

lemma pending_payment_status:
  assumes "pending_awaiting s" and "jobs s i = Some j"
    and "jobs s' = (jobs s)(i \<mapsto> j\<lparr>payment_status := ps\<rparr>)" "tasks s' = tasks s"
  shows "pending_awaiting s'"
  using assms unfolding pending_awaiting_def by (auto simp: image_iff)

lemma pending_same:
  "pending_awaiting s \<Longrightarrow> jobs s' = jobs s \<Longrightarrow> tasks s' = tasks s \<Longrightarrow> pending_awaiting s'"
  by (simp add: pending_awaiting_def)

lemma start_job_effect:
  "(jobs (snd (start_job e new_id data s)) = jobs s \<or>
    (\<exists>j. jobs (snd (start_job e new_id data s)) = (jobs s)(new_id \<mapsto> j))) \<and>
   tasks (snd (start_job e new_id data s)) = tasks s"
  by (cases data) (auto simp: start_job_def Let_def split: option.splits)

lemma start_job_other:
  "jobs s new_id = None \<Longrightarrow> jobs s i = Some j \<Longrightarrow>
     jobs (snd (start_job e new_id data s)) i = Some j"
  by (cases data) (auto simp: start_job_def Let_def split: option.splits)

lemma pending_step:
  assumes c: "pending_awaiting s" and a: "first_proof x s"
  shows "pending_awaiting (step e x s)"
proof (cases x)
  case (StartJob new_id data)
  with a have n: "jobs s new_id = None" by simp
  have nt: "new_id \<notin> fst ` set (tasks s)" using pending_no_task [OF c] n by blast
  from start_job_effect [of e new_id data s] have
    t: "tasks (snd (start_job e new_id data s)) = tasks s" and
    d: "jobs (snd (start_job e new_id data s)) = jobs s \<or>
        (\<exists>j. jobs (snd (start_job e new_id data s)) = (jobs s)(new_id \<mapsto> j))"
    by blast+
  from d have "pending_awaiting (snd (start_job e new_id data s))"
  proof
    assume "jobs (snd (start_job e new_id data s)) = jobs s"
    from pending_same [OF c this t] show ?thesis .
  next
    assume "\<exists>j. jobs (snd (start_job e new_id data s)) = (jobs s)(new_id \<mapsto> j)"
    then obtain j where "jobs (snd (start_job e new_id data s)) = (jobs s)(new_id \<mapsto> j)" ..
    from pending_other [OF c nt this t] show ?thesis .
  qed
  then show ?thesis using StartJob by simp
next
  case (SubmitTx resp i t)
  show ?thesis
  proof (cases "jobs s i")
    case None
    with SubmitTx c show ?thesis by (simp add: submit_tx_def)
  next
    case (Some j)
    with a SubmitTx have k: "status j = AwaitingPayment" "tx_hash j = None" by simp_all
    have nt: "i \<notin> fst ` set (tasks s)" using pending_no_task [OF c] Some k by blast
    from submit_tx_effect [OF Some, of e resp t] show ?thesis
    proof (elim disjE conjE)
      assume "jobs (snd (submit_tx e resp i t s)) = jobs s"
             "tasks (snd (submit_tx e resp i t s)) = tasks s"
      from pending_same [OF c this] show ?thesis using SubmitTx by simp
    next
      assume "jobs (snd (submit_tx e resp i t s)) =
                (jobs s)(i \<mapsto> j\<lparr>payment_status := Some ''failed'', status := Failed\<rparr>)"
             "tasks (snd (submit_tx e resp i t s)) = tasks s"
      from pending_other [OF c nt this] show ?thesis using SubmitTx by simp
    next
      assume "jobs (snd (submit_tx e resp i t s)) =
                (jobs s)(i \<mapsto> j\<lparr>payment_status := Some ''completed'', tx_hash := Some t\<rparr>)"
             "tasks (snd (submit_tx e resp i t s)) = tasks s @ [(i, t)]"
      from pending_accepted [OF c nt _ _ this] k show ?thesis using SubmitTx by simp
    qed
  qed
next
  case (ExecutionPhase outc)
  show ?thesis
  proof (cases "tasks s")
    case Nil
    with ExecutionPhase c show ?thesis by simp
  next
    case (Cons t rest)
    obtain i p where t: "t = (i, p)" by (cases t)
    from c Cons t obtain j where j: "jobs s i = Some j"
      unfolding pending_awaiting_def by force
    have "jobs (s\<lparr>tasks := rest\<rparr>) i = Some j" using j by simp
    from handle_payment_status_effect [OF this, of e outc quiet p] obtain j' where
      e: "jobs (step e x s) = (jobs s)(i \<mapsto> j')" "tasks (step e x s) = rest"
      using ExecutionPhase Cons t by auto
    have "tasks s = (i, p) # rest" using Cons t by simp
    from pending_executed [OF c this e] show ?thesis .
  qed
next
  case (GetStatus check i)
  show ?thesis
  proof (cases "jobs s i")
    case None
    with GetStatus c show ?thesis by (simp add: get_status_def)
  next
    case (Some j)
    from get_status_effect [OF Some, of check] obtain ps where
      e: "jobs (step e x s) = (jobs s)(i \<mapsto> j\<lparr>payment_status := ps\<rparr>)"
         "tasks (step e x s) = tasks s"
      using GetStatus by auto
    from pending_payment_status [OF c Some e] show ?thesis .
  qed
qed

lemma step_forward:
  assumes c: "pending_awaiting s" and a: "first_proof x s" and k: "jobs s i = Some j"
  shows "\<exists>j'. jobs (step e x s) i = Some j' \<and> forward (status j) (status j')"
proof (cases x)
  case (StartJob new_id data)
  with a k have "jobs (step e x s) i = Some j" by (simp add: start_job_other)
  then show ?thesis using forward_refl by blast
next
  case (SubmitTx resp i' t)
  show ?thesis
  proof (cases "jobs s i'")
    case None
    with SubmitTx k show ?thesis by (auto simp: submit_tx_def forward_refl)
  next
    case (Some j0)
    show ?thesis
    proof (cases "i' = i")
      case True
      with Some k a SubmitTx have "status j = AwaitingPayment" by simp
      moreover have "\<exists>j'. jobs (step e x s) i = Some j'"
        using submit_tx_effect [OF Some, of e resp t] True k SubmitTx by auto
      ultimately show ?thesis using forward_awaiting by auto
    next
      case False
      then have "jobs (step e x s) i = Some j"
        using submit_tx_effect [OF Some, of e resp t] k SubmitTx by auto
      then show ?thesis using forward_refl by blast
    qed
  qed
next
  case (ExecutionPhase outc)
  show ?thesis
  proof (cases "tasks s")
    case Nil
    with ExecutionPhase k show ?thesis by (auto simp: forward_refl)
  next
    case (Cons t rest)
    obtain i' p where t: "t = (i', p)" by (cases t)
    from c Cons t obtain j0 where j0: "jobs s i' = Some j0" "status j0 = AwaitingPayment"
      unfolding pending_awaiting_def by force
    have "jobs (s\<lparr>tasks := rest\<rparr>) i' = Some j0" using j0 by simp
    from handle_payment_status_effect [OF this, of e outc quiet p] obtain j' where
      e: "jobs (step e x s) = (jobs s)(i' \<mapsto> j')"
      using ExecutionPhase Cons t by auto
    show ?thesis
    proof (cases "i' = i")
      case True
      with j0 k have "status j = AwaitingPayment" by simp
      then show ?thesis using e True forward_awaiting by auto
    next
      case False
      then show ?thesis using e k forward_refl by auto
    qed
  qed
next
  case (GetStatus check i')
  show ?thesis
  proof (cases "jobs s i'")
    case None
    with GetStatus k show ?thesis by (auto simp: get_status_def forward_refl)
  next
    case (Some j0)
    from get_status_effect [OF Some, of check] obtain ps where
      e: "jobs (step e x s) = (jobs s)(i' \<mapsto> j0\<lparr>payment_status := ps\<rparr>)"
      using GetStatus by auto
    show ?thesis using e k Some forward_refl by (cases "i' = i") auto
  qed
qed

lemma run_forward:
  "pending_awaiting s \<Longrightarrow> single_proof_run e xs s \<Longrightarrow> jobs s i = Some j \<Longrightarrow>
     \<exists>j'. jobs (run e xs s) i = Some j' \<and> forward (status j) (status j')"
proof (induction xs arbitrary: s j)
  case Nil
  then show ?case by (simp add: forward_refl)
next
  case (Cons x xs)
  from Cons.prems have a: "first_proof x s" and r: "single_proof_run e xs (step e x s)" by simp_all
  from step_forward [OF Cons.prems(1) a Cons.prems(3), of e] obtain j1 where
    j1: "jobs (step e x s) i = Some j1" "forward (status j) (status j1)" by blast
  from Cons.IH [OF pending_step [OF Cons.prems(1) a] r j1(1)] obtain j' where
    "jobs (run e xs (step e x s)) i = Some j'" "forward (status j1) (status j')" by blast
  with j1 show ?case using forward_trans by auto
qed

lemma pending_run:
  "pending_awaiting s \<Longrightarrow> single_proof_run e xs s \<Longrightarrow> pending_awaiting (run e xs s)"
  by (induction xs arbitrary: s) (simp_all add: pending_step)

lemma run_append: "run e (xs @ ys) s = run e ys (run e xs s)"
  by (induction xs arbitrary: s) simp_all

lemma single_proof_run_append:
  "single_proof_run e (xs @ ys) s =
     (single_proof_run e xs s \<and> single_proof_run e ys (run e xs s))"
  by (induction xs arbitrary: s) simp_all

text \<open>
  Claim C3, amended. In every run from the empty state in which ids are fresh and no
  call of \<^verbatim>\<open>submit_tx\<close> gets the verifier's answer for a job that already has a
  \<^verbatim>\<open>tx_hash\<close> or no longer awaits payment, the status of a job at any point and its status
  at any later point are equal or ordered along awaiting payment, running, then
  completed or failed; so a completed or failed job keeps its status. The points
  compared are those between operations: the execution phase writes running and then
  completed or failed in one step. (Without the restriction a later proof changes a
  terminal status: see the counterexample.)
\<close>

theorem status_moves_forward:
  assumes "single_proof_run e (xs @ ys) init_state"
    and "jobs (run e xs init_state) job_id = Some j"
  shows "\<exists>j'. jobs (run e (xs @ ys) init_state) job_id = Some j' \<and>
              forward (status j) (status j')"
proof -
  from assms(1) have x: "single_proof_run e xs init_state"
    and y: "single_proof_run e ys (run e xs init_state)"
    by (simp_all add: single_proof_run_append)
  from run_forward [OF pending_run [OF pending_init x] y assms(2)]
  show ?thesis by (simp add: run_append)
qed

theorem status_moves_forward_witness:
  "single_proof_run demo_env
     ([StartJob ''job-1'' demo_request, SubmitTx paid_response ''job-1'' ''tx-a''] @
      [ExecutionPhase (Returned (StrValue ''Dear Alice''))]) init_state \<and>
   map_option status
     (jobs (run demo_env [StartJob ''job-1'' demo_request,
                          SubmitTx paid_response ''job-1'' ''tx-a''] init_state) ''job-1'') =
     Some AwaitingPayment \<and>
   (\<exists>j'. jobs (run demo_env
                 ([StartJob ''job-1'' demo_request, SubmitTx paid_response ''job-1'' ''tx-a''] @
                  [ExecutionPhase (Returned (StrValue ''Dear Alice''))]) init_state) ''job-1'' = Some j' \<and>
         status j' = Completed \<and> forward AwaitingPayment (status j'))"
proof -
  have h: "single_proof_run demo_env
     ([StartJob ''job-1'' demo_request, SubmitTx paid_response ''job-1'' ''tx-a''] @
      [ExecutionPhase (Returned (StrValue ''Dear Alice''))]) init_state"
    by (simp add: demo_simps)
  have j: "jobs (run demo_env [StartJob ''job-1'' demo_request,
                          SubmitTx paid_response ''job-1'' ''tx-a''] init_state) ''job-1'' =
     Some \<lparr>status = AwaitingPayment, payment_status = Some ''completed'', tx_hash = Some ''tx-a'',
           input_data = [(''text'', ''draft a reply to Alice'')],
           result = None, identifier_from_purchaser = ''buyer-1'',
           error = None, tx = None, nft = None\<rparr>"
    by (simp add: demo_simps)
  have c: "map_option status (jobs (run demo_env
                 ([StartJob ''job-1'' demo_request, SubmitTx paid_response ''job-1'' ''tx-a''] @
                  [ExecutionPhase (Returned (StrValue ''Dear Alice''))]) init_state) ''job-1'') =
           Some Completed"
    by (simp add: demo_simps)
  show ?thesis
    using h j c status_moves_forward [OF h j] by auto
qed

theorem terminal_status_changed_by_later_proof:
  "map_option status (jobs completed_state ''job-1'') = Some Completed \<and>
   map_option status
     (jobs (run demo_env [SubmitTx underpaid_response ''job-1'' ''tx-b''] completed_state) ''job-1'') =
     Some Failed \<and>
   map_option status
     (jobs (run demo_env [SubmitTx underpaid_response ''job-1'' ''tx-b'',
                          SubmitTx paid_response ''job-1'' ''tx-c'',
                          ExecutionPhase (Returned (StrValue ''Dear Alice, again''))]
              completed_state) ''job-1'') =
     Some Completed \<and>
   \<not> forward Completed Failed \<and> \<not> forward Failed Completed"
  by (simp add: completed_state_def demo_simps forward_def)

section \<open>No payment instance is held in a run from the empty state\<close>

lemma handle_payment_status_no_instance:
  "payment_instances s job_id = None \<Longrightarrow>
     handle_payment_status e outcome m job_id payment_id s =
     handle_payment_status e outcome quiet job_id payment_id s"
  by (cases outcome)
     (auto simp: handle_payment_status_def finish_execution_def release_handle_def
        mark_running_def quiet_def Let_def domIff split: option.splits)

lemma step_no_instances:
  assumes "payment_instances s = Map.empty"
  shows "payment_instances (step e x s) = Map.empty"
proof (cases x)
  case (StartJob new_id data)
  with assms show ?thesis
    by (cases data) (auto simp: start_job_def Let_def split: option.splits)
next
  case (SubmitTx resp i t)
  with assms show ?thesis
    by (auto simp: submit_tx_def Let_def split: option.splits sum.splits)
next
  case (ExecutionPhase outc)
  with assms show ?thesis
    by (cases outc)
       (auto simp: handle_payment_status_def finish_execution_def release_handle_def
          mark_running_def quiet_def Let_def split: option.splits list.splits)
next
  case (GetStatus check i)
  with assms show ?thesis
    by (auto simp: get_status_def Let_def split: option.splits)
qed

lemma run_no_instances:
  "payment_instances s = Map.empty \<Longrightarrow> payment_instances (run e xs s) = Map.empty"
  by (induction xs arbitrary: s) (simp_all add: step_no_instances)

lemma run_from_init_no_instances: "payment_instances (run e xs init_state) = Map.empty"
  by (rule run_no_instances) (simp add: init_state_def)

end
